theory Spec2Isabelle
  imports Complex_Main "HOL-Library.AList" "HOL-Library.Monad_Syntax"
begin

section \<open>NetStatWiz: connection parsing, filtering, geolocation cache and summaries\<close>

text \<open>
  A shallow embedding of \<^verbatim>\<open>src/NetStatWiz/NetStatWiz.py\<close>.

  Conventions of the model.
  \<^item> A Python \<^verbatim>\<open>str\<close> is a \<^typ>\<open>string\<close>; each \<^typ>\<open>char\<close> stands for one code
    point in the range 0..255. Text with code points above 255 is outside the model.
  \<^item> A Python \<^verbatim>\<open>dict\<close> is an association list in insertion order, read with
    \<^const>\<open>map_of\<close> and written with \<^const>\<open>AList.update\<close> (replace in place, or append).
  \<^item> \<^verbatim>\<open>int\<close> is the one of an interpreter with the default limit of 4300 digits for the
    conversion of a string.
  \<^item> Console output (\<^verbatim>\<open>print\<close>) is not modelled.
  \<^item> The answers of the outside world (the geolocation provider, the mapping library, the
    file system) are parameters of the functions that consult them.
\<close>

subsection \<open>The static port table\<close>

text \<open>\<^verbatim>\<open>PORT_SERVICES\<close>, lines 37-43 of the source, in the order written there.\<close>

definition PORT_SERVICES :: "(int \<times> string) list" where
  "PORT_SERVICES =
    [(20, ''FTP Data''), (21, ''FTP''), (22, ''SSH''), (23, ''Telnet''), (25, ''SMTP''),
     (53, ''DNS''), (80, ''HTTP''), (110, ''POP3''), (143, ''IMAP''), (443, ''HTTPS''),
     (445, ''SMB''), (3306, ''MySQL''), (3389, ''RDP''), (5432, ''PostgreSQL''),
     (8080, ''HTTP-Proxy''), (8443, ''HTTPS-Alt''), (27017, ''MongoDB''),
     (6379, ''Redis''), (9200, ''Elasticsearch''), (27015, ''Steam'')]"

text \<open>\<^verbatim>\<open>return PORT_SERVICES.get(port, "Unknown")\<close>\<close>

definition get_service_name :: "int \<Rightarrow> string" where
  "get_service_name port =
     (case map_of PORT_SERVICES port of Some name \<Rightarrow> name | None \<Rightarrow> ''Unknown'')"

subsection \<open>Character classes\<close>

text \<open>
  The classes of Python's \<^verbatim>\<open>re\<close> module for \<^verbatim>\<open>str\<close> patterns, restricted to the code
  points 0..255: \<^verbatim>\<open>\d\<close> is a decimal digit (only \<^verbatim>\<open>0\<close>..\<^verbatim>\<open>9\<close> in this range),
  \<^verbatim>\<open>\s\<close> is \<^verbatim>\<open>str.isspace\<close> (TAB..CR, FS..US, space, NEL, NBSP), and \<^verbatim>\<open>\w\<close> is an
  alphanumeric character or the underscore.
\<close>

definition is_digit :: "char \<Rightarrow> bool" where
  "is_digit c = (let n = (of_char c :: nat) in 48 \<le> n \<and> n \<le> 57)"

definition is_space :: "char \<Rightarrow> bool" where
  "is_space c = (let n = (of_char c :: nat) in
     (9 \<le> n \<and> n \<le> 13) \<or> (28 \<le> n \<and> n \<le> 32) \<or> n = 133 \<or> n = 160)"

definition is_word :: "char \<Rightarrow> bool" where
  "is_word c = (let n = (of_char c :: nat) in
     (48 \<le> n \<and> n \<le> 57) \<or> (65 \<le> n \<and> n \<le> 90) \<or> n = 95 \<or> (97 \<le> n \<and> n \<le> 122) \<or>
     n = 170 \<or> n = 178 \<or> n = 179 \<or> n = 181 \<or> n = 185 \<or> n = 186 \<or>
     (188 \<le> n \<and> n \<le> 190) \<or> (192 \<le> n \<and> n \<le> 214) \<or> (216 \<le> n \<and> n \<le> 246) \<or>
     248 \<le> n)"

subsection \<open>\<^verbatim>\<open>int(str)\<close> and \<^verbatim>\<open>str.split\<close>\<close>

text \<open>The value of a string of decimal digits, most significant digit first.\<close>

definition digit_val :: "char \<Rightarrow> nat" where
  "digit_val c = of_char c - 48"

definition dec_val :: "string \<Rightarrow> nat" where
  "dec_val ds = foldl (\<lambda>acc c. 10 * acc + digit_val c) 0 ds"

text \<open>
  The white space that \<^verbatim>\<open>int\<close> skips around the number: the C locale's \<^verbatim>\<open>isspace\<close>
  (TAB..CR and space), and NEL and NBSP, which the conversion maps to a space first.
\<close>

definition is_int_space :: "char \<Rightarrow> bool" where
  "is_int_space c = (let n = (of_char c :: nat) in
     (9 \<le> n \<and> n \<le> 13) \<or> n = 32 \<or> n = 133 \<or> n = 160)"

text \<open>
  Underscores in the digits of \<^verbatim>\<open>int\<close>'s argument: allowed singly between two digits,
  so not first, not last and not doubled. The argument is a string of digits and
  underscores; the answer says whether it is a well-formed number.
\<close>

fun underscores_ok :: "string \<Rightarrow> bool" where
  "underscores_ok [] = False"
| "underscores_ok [c] = is_digit c"
| "underscores_ok (c # d # cs) =
     (is_digit c \<and> (if is_digit d then underscores_ok (d # cs) else underscores_ok cs))"

text \<open>
  The default of \<^verbatim>\<open>sys.get_int_max_str_digits()\<close>: \<^verbatim>\<open>int\<close> raises \<^verbatim>\<open>ValueError\<close> for a
  string with more digits than this, leading zeros counted and underscores not.
\<close>

definition max_str_digits :: nat where
  "max_str_digits = 4300"

text \<open>
  \<^verbatim>\<open>int(s)\<close> in base 10: optional white space, an optional sign, digits (with single
  underscores between them, and no more of them than the limit), optional white space, and
  nothing else. \<^const>\<open>None\<close> is the \<^verbatim>\<open>ValueError\<close>.
\<close>

definition py_int :: "string \<Rightarrow> int option" where
  "py_int s =
     (let t = dropWhile is_int_space s;
          (sign, u) = (case t of
                         [] \<Rightarrow> (1, t)
                       | c # r \<Rightarrow> if c = CHR ''+'' then (1, r)
                                  else if c = CHR ''-'' then (-1, r) else (1, t));
          body = takeWhile (\<lambda>c. is_digit c \<or> c = CHR ''_'') u;
          rest = dropWhile (\<lambda>c. is_digit c \<or> c = CHR ''_'') u
      in if underscores_ok body \<and> list_all is_int_space rest \<and>
            length (filter is_digit body) \<le> max_str_digits
         then Some (sign * int (dec_val (filter is_digit body)))
         else None)"

text \<open>
  \<^verbatim>\<open>s.split(sep)\<close> for a one-character separator: the pieces between the separators, empty
  pieces included; never an empty list.
\<close>

fun split_on :: "char \<Rightarrow> string \<Rightarrow> string list" where
  "split_on sep [] = [[]]"
| "split_on sep (c # cs) =
     (if c = sep then [] # split_on sep cs
      else (case split_on sep cs of
              [] \<Rightarrow> [[c]]
            | p # ps \<Rightarrow> (c # p) # ps))"

subsection \<open>\<^verbatim>\<open>is_private_ip\<close>\<close>

text \<open>
  Lines 106-126. The bare \<^verbatim>\<open>except\<close> turns the \<^verbatim>\<open>ValueError\<close> of either
  \<^verbatim>\<open>int\<close> call into the answer \<^verbatim>\<open>False\<close>; the first conversion runs before the second,
  and both run before any comparison. The third and the fourth piece are not converted.
\<close>

definition is_private_ip :: "string \<Rightarrow> bool" where
  "is_private_ip ip =
     (let parts = split_on CHR ''.'' ip in
      if length parts \<noteq> 4 then False
      else (case py_int (parts ! 0) of
              None \<Rightarrow> False
            | Some first \<Rightarrow>
               (case py_int (parts ! 1) of
                  None \<Rightarrow> False
                | Some second \<Rightarrow>
                    if first = 10 then True
                    else if first = 172 \<and> 16 \<le> second \<and> second \<le> 31 then True
                    else if first = 192 \<and> second = 168 then True
                    else if first = 127 then True
                    else False)))"

subsection \<open>The connection-line pattern\<close>

text \<open>
  \<^verbatim>\<open>pattern.match(line)\<close> for the pattern of lines 79-84,
  \<^verbatim>\<open>^\s*(TCP|UDP)\s+(\d+\.\d+\.\d+\.\d+):(\d+)\s+(\d+\.\d+\.\d+\.\d+):(\d+)\s+(\w+)\<close>.
  Each repetition is followed by a token that no character of the repeated class can start
  (white space by a letter or a digit, digits by a dot, a colon or white space, white space
  by a word character), and the last repetition ends the pattern. So the backtracking
  matcher finds a match exactly when the scan that takes every repetition as far as it goes
  finds one, and the groups are the ones of that scan. The lemmas
  \<open>match_line_decomposition\<close> and \<open>match_line_complete\<close> below relate the scan to the
  strings the pattern describes.
\<close>

text \<open>\<^verbatim>\<open>X+\<close> for a character class: the longest non-empty run, and the rest.\<close>

definition many1 :: "(char \<Rightarrow> bool) \<Rightarrow> string \<Rightarrow> (string \<times> string) option" where
  "many1 P s = (if takeWhile P s = [] then None else Some (takeWhile P s, dropWhile P s))"

text \<open>A literal character.\<close>

definition lit :: "char \<Rightarrow> string \<Rightarrow> string option" where
  "lit c s = (case s of [] \<Rightarrow> None | x # r \<Rightarrow> if x = c then Some r else None)"

text \<open>\<^verbatim>\<open>(TCP|UDP)\<close>\<close>

definition proto_tok :: "string \<Rightarrow> (string \<times> string) option" where
  "proto_tok s =
     (if take 3 s = ''TCP'' then Some (''TCP'', drop 3 s)
      else if take 3 s = ''UDP'' then Some (''UDP'', drop 3 s)
      else None)"

text \<open>\<^verbatim>\<open>(\d+\.\d+\.\d+\.\d+)\<close>: the group is the text matched, dots included.\<close>

definition ipv4_tok :: "string \<Rightarrow> (string \<times> string) option" where
  "ipv4_tok s = do {
     (a, r1) \<leftarrow> many1 is_digit s;
     r2 \<leftarrow> lit CHR ''.'' r1;
     (b, r3) \<leftarrow> many1 is_digit r2;
     r4 \<leftarrow> lit CHR ''.'' r3;
     (c, r5) \<leftarrow> many1 is_digit r4;
     r6 \<leftarrow> lit CHR ''.'' r5;
     (d, r7) \<leftarrow> many1 is_digit r6;
     Some (a @ ''.'' @ b @ ''.'' @ c @ ''.'' @ d, r7)
   }"

text \<open>
  The six groups of a match, in the pattern's order: protocol, local IP, local port,
  remote IP, remote port, state. \<^const>\<open>None\<close> is no match.
\<close>

definition match_line ::
  "string \<Rightarrow> (string \<times> string \<times> string \<times> string \<times> string \<times> string) option" where
  "match_line line = do {
     (protocol, r1) \<leftarrow> proto_tok (dropWhile is_space line);
     (s1, r2) \<leftarrow> many1 is_space r1;
     (local_ip, r3) \<leftarrow> ipv4_tok r2;
     r4 \<leftarrow> lit CHR '':'' r3;
     (local_port, r5) \<leftarrow> many1 is_digit r4;
     (s2, r6) \<leftarrow> many1 is_space r5;
     (remote_ip, r7) \<leftarrow> ipv4_tok r6;
     r8 \<leftarrow> lit CHR '':'' r7;
     (remote_port, r9) \<leftarrow> many1 is_digit r8;
     (s3, r10) \<leftarrow> many1 is_space r9;
     (state, r11) \<leftarrow> many1 is_word r10;
     Some (protocol, local_ip, local_port, remote_ip, remote_port, state)
   }"

subsection \<open>\<^verbatim>\<open>parse_netstat_output\<close>\<close>

text \<open>The dictionary appended at lines 95-102.\<close>

record connection =
  protocol :: string
  local_ip :: string
  local_port :: int
  remote_ip :: string
  remote_port :: int
  state :: string

datatype error = ValueError

text \<open>The literal list of line 92.\<close>

definition excluded_literals :: "string list" where
  "excluded_literals = [''0.0.0.0'', ''127.0.0.1'', ''::'', ''::1'']"

text \<open>
  The loop of lines 86-102 with the list built so far. The two \<^verbatim>\<open>int\<close> calls of
  lines 98 and 100 are not inside a \<^verbatim>\<open>try\<close>: a \<^verbatim>\<open>ValueError\<close> there (a port of
  more digits than the limit) leaves the function.
\<close>

fun parse_loop :: "connection list \<Rightarrow> string list \<Rightarrow> error + connection list" where
  "parse_loop connections [] = Inr connections"
| "parse_loop connections (line # lines) =
     (case match_line line of
        None \<Rightarrow> parse_loop connections lines
      | Some (proto, l_ip, l_port, r_ip, r_port, st) \<Rightarrow>
          if r_ip \<notin> set excluded_literals then
            if \<not> is_private_ip r_ip then
              (case py_int l_port of
                 None \<Rightarrow> Inl ValueError
               | Some lp \<Rightarrow>
                  (case py_int r_port of
                     None \<Rightarrow> Inl ValueError
                   | Some rp \<Rightarrow>
                       parse_loop
                         (connections @
                          [\<lparr>protocol = proto, local_ip = l_ip, local_port = lp,
                            remote_ip = r_ip, remote_port = rp, state = st\<rparr>])
                         lines))
            else parse_loop connections lines
          else parse_loop connections lines)"

definition parse_netstat_output :: "string list \<Rightarrow> error + connection list" where
  "parse_netstat_output lines = parse_loop [] lines"

subsection \<open>The object's state and the outside world\<close>

text \<open>
  The dictionary built at lines 142-151. The text fields are strings and the coordinates
  are numbers, as in the provider's replies; a coordinate is held as the rational number
  the parsed value denotes, and is only stored and compared with zero.
\<close>

record location =
  l_ip :: string
  country :: string
  region :: string
  city :: string
  latitude :: rat
  longitude :: rat
  isp :: string
  org :: string

text \<open>The dictionary appended at lines 189-194.\<close>

record port_entry =
  e_ip :: string
  e_service :: string
  e_protocol :: string
  e_state :: string

text \<open>
  What the run has done to the outside world so far: the pauses of line 134 and the
  requests of line 138, in order. A request counts whether or not it is answered.
\<close>

datatype event = Sleep | HttpGet string

text \<open>
  The three attributes of \<^verbatim>\<open>__init__\<close> (lines 48-50), and the events so far.
  \<^verbatim>\<open>port_services\<close> is a \<^verbatim>\<open>defaultdict(list)\<close>: reading a missing key gives the
  empty list.
\<close>

record wiz =
  connections :: "connection list"
  ip_locations :: "(string \<times> location) list"
  port_services :: "(int \<times> port_entry list) list"
  effects :: "event list"

definition init :: wiz where
  "init = \<lparr>connections = [], ip_locations = [], port_services = [], effects = []\<rparr>"

text \<open>
  The decoded JSON object of a reply: a field is \<^const>\<open>None\<close> when the object has no
  such key. Only the keys that lines 141-150 read are kept.
\<close>

record api_reply =
  status :: "string option"
  r_country :: "string option"
  r_regionName :: "string option"
  r_city :: "string option"
  r_lat :: "rat option"
  r_lon :: "rat option"
  r_isp :: "string option"
  r_org :: "string option"

text \<open>
  What one request comes to: \<^verbatim>\<open>urlopen\<close> raises \<^verbatim>\<open>HTTPError\<close>, the request times
  out, another transport error is raised, the body is not JSON, the JSON is not an object
  (\<^verbatim>\<open>data.get\<close> raises \<^verbatim>\<open>AttributeError\<close>), or the JSON is an object.
\<close>

datatype response =
  HTTPError | Timeout | TransportError | MalformedJson | JsonNotObject | JsonObject api_reply

subsection \<open>\<^verbatim>\<open>get_ip_location\<close>\<close>

text \<open>\<^verbatim>\<open>data.get(key, default)\<close>\<close>

definition get_default :: "'a option \<Rightarrow> 'a \<Rightarrow> 'a" where
  "get_default field d = (case field of Some v \<Rightarrow> v | None \<Rightarrow> d)"

text \<open>
  Lines 128-162. \<open>resp\<close> is what the request of this call comes to, should the call make
  one. Both \<^verbatim>\<open>except\<close> clauses and the \<^verbatim>\<open>else\<close> branch return \<^verbatim>\<open>None\<close> and leave
  the cache alone.
\<close>

definition get_ip_location :: "response \<Rightarrow> string \<Rightarrow> wiz \<Rightarrow> location option \<times> wiz" where
  "get_ip_location resp ip w =
     (case map_of (ip_locations w) ip of
        Some cached \<Rightarrow> (Some cached, w)
      | None \<Rightarrow>
         (let w1 = w\<lparr>effects := effects w @ [Sleep, HttpGet ip]\<rparr> in
          case resp of
            JsonObject data \<Rightarrow>
              if status data = Some ''success'' then
                (let loc = \<lparr>l_ip = ip,
                            country = get_default (r_country data) ''Unknown'',
                            region = get_default (r_regionName data) ''Unknown'',
                            city = get_default (r_city data) ''Unknown'',
                            latitude = get_default (r_lat data) 0,
                            longitude = get_default (r_lon data) 0,
                            isp = get_default (r_isp data) ''Unknown'',
                            org = get_default (r_org data) ''Unknown''\<rparr>
                 in (Some loc, w1\<lparr>ip_locations := AList.update ip loc (ip_locations w1)\<rparr>))
              else (None, w1)
          | HTTPError \<Rightarrow> (None, w1)
          | Timeout \<Rightarrow> (None, w1)
          | TransportError \<Rightarrow> (None, w1)
          | MalformedJson \<Rightarrow> (None, w1)
          | JsonNotObject \<Rightarrow> (None, w1)))"

subsection \<open>\<^verbatim>\<open>analyze_connections\<close>\<close>

text \<open>The loop of lines 181-183; \<open>net\<close> is what the provider answers for each address.\<close>

fun resolve_all :: "(string \<Rightarrow> response) \<Rightarrow> string list \<Rightarrow> wiz \<Rightarrow> wiz" where
  "resolve_all net [] w = w"
| "resolve_all net (ip # ips) w = resolve_all net ips (snd (get_ip_location (net ip) ip w))"

text \<open>The loop of lines 186-194 over the connections, in their order.\<close>

fun organize :: "connection list \<Rightarrow> (int \<times> port_entry list) list \<Rightarrow> (int \<times> port_entry list) list" where
  "organize [] ps = ps"
| "organize (conn # conns) ps =
     (let port = remote_port conn;
          service = get_service_name port;
          found = (case map_of ps port of Some es \<Rightarrow> es | None \<Rightarrow> [])
      in organize conns
           (AList.update port
              (found @ [\<lparr>e_ip = remote_ip conn, e_service = service,
                         e_protocol = protocol conn, e_state = state conn\<rparr>])
              ps))"

text \<open>
  Lines 164-194. \<open>netstat_output\<close> is what \<^verbatim>\<open>run_netstat\<close> returns. Python leaves the
  order in which a set is iterated open: \<open>set_order\<close> arranges the distinct remote addresses
  in the order the interpreter happens to use.
\<close>

definition analyze_connections ::
  "string list \<Rightarrow> (string \<Rightarrow> response) \<Rightarrow> (string list \<Rightarrow> string list) \<Rightarrow> wiz \<Rightarrow> error + wiz" where
  "analyze_connections netstat_output net set_order w =
     (case parse_netstat_output netstat_output of
        Inl e \<Rightarrow> Inl e
      | Inr conns \<Rightarrow>
         (let w1 = w\<lparr>connections := conns\<rparr> in
          if connections w1 = [] then Inr w1
          else
            (let unique_ips = set_order (remdups (map remote_ip (connections w1)));
                 w2 = resolve_all net unique_ips w1
             in Inr (w2\<lparr>port_services := organize (connections w2) (port_services w2)\<rparr>))))"

subsection \<open>The summaries of \<^verbatim>\<open>print_summary\<close> and \<^verbatim>\<open>generate_tables\<close>\<close>

text \<open>
  The loop of lines 487-491. \<^verbatim>\<open>country_counts\<close> is a \<^verbatim>\<open>defaultdict(int)\<close>: a missing
  key counts as 0. A cached location always has a country (line 144 sets it), so the inner
  \<^verbatim>\<open>get\<close> falls back to \<^verbatim>\<open>'Unknown'\<close> only for the empty dictionary of a missing address.
\<close>

fun count_countries ::
  "connection list \<Rightarrow> (string \<times> location) list \<Rightarrow> (string \<times> nat) list \<Rightarrow> (string \<times> nat) list" where
  "count_countries [] locs counts = counts"
| "count_countries (conn # conns) locs counts =
     (let ctry = (case map_of locs (remote_ip conn) of
                    Some loc \<Rightarrow> country loc
                  | None \<Rightarrow> ''Unknown'');
          old = (case map_of counts ctry of Some n \<Rightarrow> n | None \<Rightarrow> 0)
      in count_countries conns locs (AList.update ctry (old + 1) counts))"

definition country_counts :: "wiz \<Rightarrow> (string \<times> nat) list" where
  "country_counts w = count_countries (connections w) (ip_locations w) []"

text \<open>Reading a count, as \<^verbatim>\<open>country_counts[c]\<close> does.\<close>

definition count_of :: "(string \<times> nat) list \<Rightarrow> string \<Rightarrow> nat" where
  "count_of counts c = (case map_of counts c of Some n \<Rightarrow> n | None \<Rightarrow> 0)"

text \<open>
  The three numbers that lines 457-464 put into the summary block of the tables page, in
  the order of the block: \<^verbatim>\<open>total_connections\<close>, \<^verbatim>\<open>unique_ips\<close>, \<^verbatim>\<open>unique_ports\<close>.
\<close>

definition summary_block :: "wiz \<Rightarrow> nat \<times> nat \<times> nat" where
  "summary_block w =
     (let unique_ips = length (ip_locations w);
          unique_ports = length (port_services w);
          total_connections = length (connections w)
      in (total_connections, unique_ips, unique_ports))"

subsection \<open>\<^verbatim>\<open>generate_map\<close>\<close>






section \<open>The specification's vocabulary\<close>

text \<open>
  The definitions of this section follow the words of the specification, not the code:
  they say what an IPv4 address and an address block are, so that the code's answers can
  be compared with them.
\<close>

text \<open>A non-empty string of decimal digits.\<close>

definition digits :: "string \<Rightarrow> bool" where
  "digits s = (s \<noteq> [] \<and> list_all is_digit s)"

text \<open>The four numbers of a dotted quad, whatever their size.\<close>

definition dotted_quad :: "string \<Rightarrow> (nat \<times> nat \<times> nat \<times> nat) option" where
  "dotted_quad ip =
     (case split_on CHR ''.'' ip of
        [a, b, c, d] \<Rightarrow>
          if digits a \<and> digits b \<and> digits c \<and> digits d
          then Some (dec_val a, dec_val b, dec_val c, dec_val d)
          else None
      | _ \<Rightarrow> None)"

text \<open>A well-formed IPv4 address: every number of the quad is an octet.\<close>

definition octets :: "nat \<times> nat \<times> nat \<times> nat \<Rightarrow> bool" where
  "octets q = (case q of (a, b, c, d) \<Rightarrow> a < 256 \<and> b < 256 \<and> c < 256 \<and> d < 256)"

text \<open>The 32-bit value of an address.\<close>

definition ipv4_addr :: "nat \<times> nat \<times> nat \<times> nat \<Rightarrow> nat" where
  "ipv4_addr q = (case q of (a, b, c, d) \<Rightarrow> a * 2 ^ 24 + b * 2 ^ 16 + c * 2 ^ 8 + d)"

text \<open>
  \<open>in_block addr base len\<close>: the address lies in the block \<open>base/len\<close>, that is, its
  leading \<open>len\<close> bits are those of \<open>base\<close>.
\<close>

definition in_block :: "nat \<Rightarrow> nat \<Rightarrow> nat \<Rightarrow> bool" where
  "in_block addr base len = (addr div 2 ^ (32 - len) = base div 2 ^ (32 - len))"

text \<open>10.0.0.0/8, 172.16.0.0/12, 192.168.0.0/16 and 127.0.0.0/8.\<close>

definition in_private_block :: "nat \<Rightarrow> bool" where
  "in_private_block addr =
     (in_block addr (ipv4_addr (10, 0, 0, 0)) 8 \<or>
      in_block addr (ipv4_addr (172, 16, 0, 0)) 12 \<or>
      in_block addr (ipv4_addr (192, 168, 0, 0)) 16 \<or>
      in_block addr (ipv4_addr (127, 0, 0, 0)) 8)"

text \<open>
  The same four blocks read off the first two numbers of a quad: 10.x.x.x, 172.16-31.x.x,
  192.168.x.x and 127.x.x.x. This reading also applies to a quad whose numbers are not all
  octets.
\<close>

definition private_quad :: "nat \<times> nat \<times> nat \<times> nat \<Rightarrow> bool" where
  "private_quad q =
     (case q of (a, b, c, d) \<Rightarrow>
        a = 10 \<or> (a = 172 \<and> 16 \<le> b \<and> b \<le> 31) \<or> (a = 192 \<and> b = 168) \<or> a = 127)"

text \<open>
  A lookup that does not succeed: an HTTP error, a timeout, another transport error,
  malformed JSON, JSON that is not an object, or an object whose status is not "success".
\<close>

fun failed_lookup :: "response \<Rightarrow> bool" where
  "failed_lookup (JsonObject data) = (status data \<noteq> Some ''success'')"
| "failed_lookup HTTPError = True"
| "failed_lookup Timeout = True"
| "failed_lookup TransportError = True"
| "failed_lookup MalformedJson = True"
| "failed_lookup JsonNotObject = True"

text \<open>
  The country a connection's remote address is cached with; \<^const>\<open>None\<close> when the
  address has no cache entry.
\<close>

definition country_of :: "(string \<times> location) list \<Rightarrow> connection \<Rightarrow> string option" where
  "country_of locs conn = map_option country (map_of locs (remote_ip conn))"

text \<open>The text of a dotted quad with the given four pieces.\<close>

definition dotted :: "string \<Rightarrow> string \<Rightarrow> string \<Rightarrow> string \<Rightarrow> string" where
  "dotted a b c d = a @ ''.'' @ b @ ''.'' @ c @ ''.'' @ d"

text \<open>
  What the filter of lines 92-94 lets through: the remote address is a dotted quad, is none
  of the excluded literals and is not classified as private.
\<close>

definition kept :: "connection \<Rightarrow> bool" where
  "kept c = (remote_ip c \<notin> set excluded_literals \<and> \<not> is_private_ip (remote_ip c) \<and>
             dotted_quad (remote_ip c) \<noteq> None)"





section \<open>Properties\<close>

lemmas char_classes = is_digit_def is_space_def is_word_def is_int_space_def
lemmas tokens = many1_def lit_def proto_tok_def ipv4_tok_def match_line_def
lemmas conversions = py_int_def dec_val_def digit_val_def max_str_digits_def

subsection \<open>Service names\<close>

lemma PORT_SERVICES_distinct: "distinct (map fst PORT_SERVICES)"
  by (simp add: PORT_SERVICES_def)

lemma service_443: "get_service_name 443 = ''HTTPS''"
  by (simp add: get_service_name_def PORT_SERVICES_def)

text \<open>
  C6. The service-name lookup is total: a port of the static table gets the name the table
  gives it (443 gets HTTPS), every other port gets Unknown.
\<close>

theorem get_service_name_total:
  "((port, name) \<in> set PORT_SERVICES \<longrightarrow> get_service_name port = name) \<and>
   (port \<notin> fst ` set PORT_SERVICES \<longrightarrow> get_service_name port = ''Unknown'') \<and>
   get_service_name 443 = ''HTTPS''"
proof (intro conjI impI)
  assume "(port, name) \<in> set PORT_SERVICES"
  then have "map_of PORT_SERVICES port = Some name"
    using PORT_SERVICES_distinct by (rule_tac map_of_is_SomeI)
  then show "get_service_name port = name"
    by (simp add: get_service_name_def)
next
  assume "port \<notin> fst ` set PORT_SERVICES"
  then have "map_of PORT_SERVICES port = None"
    by (simp add: map_of_eq_None_iff)
  then show "get_service_name port = ''Unknown''"
    by (simp add: get_service_name_def)
next
  show "get_service_name 443 = ''HTTPS''"
    by (simp add: get_service_name_def PORT_SERVICES_def)
qed

text \<open>The lookup at a port of the table, at a port outside it, and at 443.\<close>

theorem get_service_name_total_witness:
  "get_service_name 22 = ''SSH'' \<and> get_service_name 12345 = ''Unknown'' \<and>
   get_service_name 443 = ''HTTPS''"
proof -
  have a: "(22, ''SSH'') \<in> set PORT_SERVICES"
    by (simp add: PORT_SERVICES_def)
  have b: "(12345::int) \<notin> fst ` set PORT_SERVICES"
    by (simp add: PORT_SERVICES_def)
  from get_service_name_total [of 22 "''SSH''"] a
  have "get_service_name 22 = ''SSH''" by blast
  moreover from get_service_name_total [of 12345 "''x''"] b
  have "get_service_name 12345 = ''Unknown''" by blast
  moreover from get_service_name_total [of 0 "''x''"]
  have "get_service_name 443 = ''HTTPS''" by blast
  ultimately show ?thesis by blast
qed

subsection \<open>The geolocation cache\<close>

lemma get_ip_location_hit:
  "map_of (ip_locations w) ip = Some loc \<Longrightarrow> get_ip_location resp ip w = (Some loc, w)"
  by (simp add: get_ip_location_def)

lemma get_ip_location_miss_failed:
  "map_of (ip_locations w) ip = None \<Longrightarrow> failed_lookup resp \<Longrightarrow>
   get_ip_location resp ip w = (None, w\<lparr>effects := effects w @ [Sleep, HttpGet ip]\<rparr>)"
  by (cases resp) (simp_all add: get_ip_location_def)

lemma get_ip_location_Some_cached:
  assumes "get_ip_location resp ip w = (Some loc, w1)"
  shows "map_of (ip_locations w1) ip = Some loc"
proof (cases "map_of (ip_locations w) ip")
  case None
  with assms show ?thesis
    by (cases resp) (auto simp: get_ip_location_def Let_def update_conv' split: if_splits)
next
  case (Some cached)
  with assms show ?thesis
    by (simp add: get_ip_location_def)
qed

lemma get_ip_location_miss_effects:
  "map_of (ip_locations w) ip = None \<Longrightarrow>
   effects (snd (get_ip_location resp ip w)) = effects w @ [Sleep, HttpGet ip]"
  by (cases resp) (simp_all add: get_ip_location_def Let_def)

lemma get_ip_location_keeps:
  "connections (snd (get_ip_location resp ip w)) = connections w \<and>
   port_services (snd (get_ip_location resp ip w)) = port_services w"
  by (cases resp) (simp_all add: get_ip_location_def Let_def split: option.splits)

lemma resolve_all_keeps:
  "connections (resolve_all net ips w) = connections w \<and>
   port_services (resolve_all net ips w) = port_services w"
  by (induction ips arbitrary: w) (simp_all add: get_ip_location_keeps)

text \<open>
  C1. Cache idempotence. If a call for an address returns a location, a second call for the
  same address returns the same location and leaves the state as it is: no pause and no
  request are added, whatever the provider would have answered. If the first call was the
  address's first resolution (it was not cached), the two calls together make exactly one
  pause and one request.
\<close>

theorem resolver_cache_idempotent:
  assumes first: "get_ip_location r1 ip w = (Some loc, w1)"
  shows "get_ip_location r2 ip w1 = (Some loc, w1) \<and>
         (map_of (ip_locations w) ip = None \<longrightarrow> effects w1 = effects w @ [Sleep, HttpGet ip])"
proof
  from first have "map_of (ip_locations w1) ip = Some loc"
    by (rule get_ip_location_Some_cached)
  then show "get_ip_location r2 ip w1 = (Some loc, w1)"
    by (rule get_ip_location_hit)
next
  show "map_of (ip_locations w) ip = None \<longrightarrow> effects w1 = effects w @ [Sleep, HttpGet ip]"
  proof
    assume "map_of (ip_locations w) ip = None"
    then have "effects (snd (get_ip_location r1 ip w)) = effects w @ [Sleep, HttpGet ip]"
      by (rule get_ip_location_miss_effects)
    with first show "effects w1 = effects w @ [Sleep, HttpGet ip]" by simp
  qed
qed

text \<open>
  A successful first resolution on the fresh object, then a second call during which the
  provider would time out.
\<close>

theorem resolver_cache_idempotent_witness:
  "get_ip_location
     (JsonObject \<lparr>status = Some ''success'', r_country = Some ''United States'',
        r_regionName = None, r_city = Some ''Norwell'', r_lat = Some 42, r_lon = Some (-71),
        r_isp = None, r_org = None\<rparr>)
     ''93.184.216.34'' init =
   (Some \<lparr>l_ip = ''93.184.216.34'', country = ''United States'', region = ''Unknown'',
          city = ''Norwell'', latitude = 42, longitude = -71, isp = ''Unknown'',
          org = ''Unknown''\<rparr>,
    \<lparr>connections = [],
      ip_locations = [(''93.184.216.34'',
        \<lparr>l_ip = ''93.184.216.34'', country = ''United States'', region = ''Unknown'',
          city = ''Norwell'', latitude = 42, longitude = -71, isp = ''Unknown'',
          org = ''Unknown''\<rparr>)],
      port_services = [], effects = [Sleep, HttpGet ''93.184.216.34'']\<rparr>) \<and>
   get_ip_location Timeout ''93.184.216.34''
     \<lparr>connections = [],
      ip_locations = [(''93.184.216.34'',
        \<lparr>l_ip = ''93.184.216.34'', country = ''United States'', region = ''Unknown'',
          city = ''Norwell'', latitude = 42, longitude = -71, isp = ''Unknown'',
          org = ''Unknown''\<rparr>)],
      port_services = [], effects = [Sleep, HttpGet ''93.184.216.34'']\<rparr> =
   (Some \<lparr>l_ip = ''93.184.216.34'', country = ''United States'', region = ''Unknown'',
          city = ''Norwell'', latitude = 42, longitude = -71, isp = ''Unknown'',
          org = ''Unknown''\<rparr>,
    \<lparr>connections = [],
      ip_locations = [(''93.184.216.34'',
        \<lparr>l_ip = ''93.184.216.34'', country = ''United States'', region = ''Unknown'',
          city = ''Norwell'', latitude = 42, longitude = -71, isp = ''Unknown'',
          org = ''Unknown''\<rparr>)],
      port_services = [], effects = [Sleep, HttpGet ''93.184.216.34'']\<rparr>)"
proof -
  let ?reply = "JsonObject \<lparr>status = Some ''success'', r_country = Some ''United States'',
        r_regionName = None, r_city = Some ''Norwell'', r_lat = Some 42, r_lon = Some (-71),
        r_isp = None, r_org = None\<rparr>"
  let ?loc = "\<lparr>l_ip = ''93.184.216.34'', country = ''United States'', region = ''Unknown'',
          city = ''Norwell'', latitude = 42, longitude = -71, isp = ''Unknown'',
          org = ''Unknown''\<rparr>"
  let ?w1 = "\<lparr>connections = [], ip_locations = [(''93.184.216.34'', ?loc)],
      port_services = [], effects = [Sleep, HttpGet ''93.184.216.34'']\<rparr>"
  have miss: "map_of (ip_locations init) ''93.184.216.34'' = None"
    by (simp add: init_def)
  have first: "get_ip_location ?reply ''93.184.216.34'' init = (Some ?loc, ?w1)"
    by (simp add: get_ip_location_def init_def get_default_def Let_def)
  from resolver_cache_idempotent [OF first, of Timeout] miss
  have "get_ip_location Timeout ''93.184.216.34'' ?w1 = (Some ?loc, ?w1)"
   and "effects ?w1 = effects init @ [Sleep, HttpGet ''93.184.216.34'']"
    by blast+
  with first show ?thesis by blast
qed

text \<open>
  C3. Failure atomicity. If an address is not cached and its lookup fails (an HTTP error, a
  timeout, malformed JSON, or a status that is not "success"), the call returns nothing
  and the cache is the one before the call; the address is still absent from it, and a
  later call for the same address pauses and sends a request again.
\<close>

theorem resolver_failure_atomic:
  assumes miss: "map_of (ip_locations w) ip = None"
      and failed: "failed_lookup resp"
      and call: "get_ip_location resp ip w = (res, w1)"
  shows "res = None \<and> ip_locations w1 = ip_locations w \<and>
         map_of (ip_locations w1) ip = None \<and>
         effects (snd (get_ip_location later ip w1)) = effects w1 @ [Sleep, HttpGet ip]"
proof -
  from miss failed call
  have r: "res = None" and w1: "w1 = w\<lparr>effects := effects w @ [Sleep, HttpGet ip]\<rparr>"
    by (simp_all add: get_ip_location_miss_failed)
  from w1 have c: "ip_locations w1 = ip_locations w" by simp
  with miss have m: "map_of (ip_locations w1) ip = None" by simp
  from m have "effects (snd (get_ip_location later ip w1)) = effects w1 @ [Sleep, HttpGet ip]"
    by (rule get_ip_location_miss_effects)
  with r c m show ?thesis by simp
qed

text \<open>
  The provider answers with the status "fail" on the fresh object; a later call for the
  same address sends a second request.
\<close>

theorem resolver_failure_atomic_witness:
  "get_ip_location
     (JsonObject \<lparr>status = Some ''fail'', r_country = None, r_regionName = None,
        r_city = None, r_lat = None, r_lon = None, r_isp = None, r_org = None\<rparr>)
     ''93.184.216.34'' init =
   (None, \<lparr>connections = [], ip_locations = [], port_services = [],
            effects = [Sleep, HttpGet ''93.184.216.34'']\<rparr>) \<and>
   effects (snd (get_ip_location MalformedJson ''93.184.216.34''
     \<lparr>connections = [], ip_locations = [], port_services = [],
      effects = [Sleep, HttpGet ''93.184.216.34'']\<rparr>)) =
   [Sleep, HttpGet ''93.184.216.34'', Sleep, HttpGet ''93.184.216.34'']"
proof -
  let ?reply = "JsonObject \<lparr>status = Some ''fail'', r_country = None, r_regionName = None,
        r_city = None, r_lat = None, r_lon = None, r_isp = None, r_org = None\<rparr>"
  let ?w1 = "\<lparr>connections = [], ip_locations = [], port_services = [],
      effects = [Sleep, HttpGet ''93.184.216.34'']\<rparr>"
  have miss: "map_of (ip_locations init) ''93.184.216.34'' = None"
    by (simp add: init_def)
  have failed: "failed_lookup ?reply"
    by simp
  have call: "get_ip_location ?reply ''93.184.216.34'' init = (None, ?w1)"
    by (simp add: get_ip_location_def init_def)
  from resolver_failure_atomic [OF miss failed call, of MalformedJson]
  have "effects (snd (get_ip_location MalformedJson ''93.184.216.34'' ?w1)) =
        effects ?w1 @ [Sleep, HttpGet ''93.184.216.34'']"
    by blast
  with call show ?thesis by simp
qed

subsection \<open>Country counts\<close>

lemma count_of_update:
  "count_of (AList.update k v counts) c = (if c = k then v else count_of counts c)"
  by (simp add: count_of_def update_conv')

lemma count_of_Nil: "count_of [] c = 0"
  by (simp add: count_of_def)

lemma count_countries_Cons:
  "count_countries (conn # conns) locs counts =
     count_countries conns locs
       (AList.update (case country_of locs conn of Some c \<Rightarrow> c | None \<Rightarrow> ''Unknown'')
          (count_of counts (case country_of locs conn of Some c \<Rightarrow> c | None \<Rightarrow> ''Unknown'') + 1)
          counts)"
  by (cases "map_of locs (remote_ip conn)") (simp_all add: country_of_def count_of_def Let_def)

lemma count_countries_count:
  "count_of (count_countries conns locs counts) c =
     count_of counts c
     + length (filter (\<lambda>conn. country_of locs conn = Some c) conns)
     + (if c = ''Unknown''
        then length (filter (\<lambda>conn. country_of locs conn = None) conns) else 0)"
proof (induction conns arbitrary: counts)
  case Nil
  show ?case by simp
next
  case (Cons conn conns)
  show ?case
  proof (cases "country_of locs conn")
    case None
    then show ?thesis
      by (simp add: count_countries_Cons Cons.IH count_of_update del: count_countries.simps)
  next
    case (Some k)
    then show ?thesis
      by (simp add: count_countries_Cons Cons.IH count_of_update del: count_countries.simps)
  qed
qed

text \<open>
  C7. Country aggregation. For every connection list and location cache, the count of a
  country is the number of connections whose remote address is cached with that country,
  and the connections whose remote address has no cache entry are counted, in addition,
  under "Unknown".
\<close>

theorem country_counts_correct:
  "count_of (country_counts w) c =
     length (filter (\<lambda>conn. country_of (ip_locations w) conn = Some c) (connections w))
     + (if c = ''Unknown''
        then length (filter (\<lambda>conn. country_of (ip_locations w) conn = None) (connections w))
        else 0)"
  by (simp add: country_counts_def count_countries_count count_of_Nil)

text \<open>Two connections, one of them to an address without a cache entry.\<close>

theorem country_counts_correct_witness:
  "count_of (country_counts
      \<lparr>connections =
         [\<lparr>protocol = ''TCP'', local_ip = ''10.0.0.5'', local_port = 51000,
           remote_ip = ''93.184.216.34'', remote_port = 443, state = ''ESTABLISHED''\<rparr>,
          \<lparr>protocol = ''TCP'', local_ip = ''10.0.0.5'', local_port = 51001,
           remote_ip = ''8.8.8.8'', remote_port = 53, state = ''ESTABLISHED''\<rparr>],
       ip_locations =
         [(''93.184.216.34'',
           \<lparr>l_ip = ''93.184.216.34'', country = ''United States'', region = ''Unknown'',
             city = ''Norwell'', latitude = 42, longitude = -71, isp = ''Unknown'',
             org = ''Unknown''\<rparr>)],
       port_services = [], effects = []\<rparr>) ''Unknown'' = 1"
  by (simp add: country_counts_correct [of _ "''Unknown''"] country_of_def)

subsection \<open>Address blocks\<close>

lemma div_base: "r < m \<Longrightarrow> (a * m + r) div m = (a::nat)"
  by simp

lemma addr_div_24:
  assumes "b < 256" "c < 256" "d < (256::nat)"
  shows "(a * 16777216 + b * 65536 + c * 256 + d) div 16777216 = a"
proof -
  from assms have "b * 65536 + c * 256 + d < 16777216" by linarith
  then have "(a * 16777216 + (b * 65536 + c * 256 + d)) div 16777216 = a"
    by (rule div_base)
  then show ?thesis by (simp only: add.assoc)
qed

lemma addr_div_16:
  assumes "c < 256" "d < (256::nat)"
  shows "(a * 16777216 + b * 65536 + c * 256 + d) div 65536 = a * 256 + b"
proof -
  from assms have "c * 256 + d < 65536" by linarith
  then have "((a * 256 + b) * 65536 + (c * 256 + d)) div 65536 = a * 256 + b"
    by (rule div_base)
  moreover have "(a * 256 + b) * 65536 + (c * 256 + d) = a * 16777216 + b * 65536 + c * 256 + d"
    by (simp add: algebra_simps)
  ultimately show ?thesis by simp
qed

lemma addr_div_20_aux:
  assumes "l < 16" "c < 256" "d < (256::nat)"
  shows "(a * 16777216 + (h * 16 + l) * 65536 + c * 256 + d) div 1048576 = a * 16 + h"
proof -
  from assms have "l * 65536 + c * 256 + d < 1048576" by linarith
  then have "((a * 16 + h) * 1048576 + (l * 65536 + c * 256 + d)) div 1048576 = a * 16 + h"
    by (rule div_base)
  moreover have "(a * 16 + h) * 1048576 + (l * 65536 + c * 256 + d)
                 = a * 16777216 + (h * 16 + l) * 65536 + c * 256 + d"
    by (simp add: algebra_simps)
  ultimately show ?thesis by simp
qed

lemma addr_div_20:
  assumes "c < 256" "d < (256::nat)"
  shows "(a * 16777216 + b * 65536 + c * 256 + d) div 1048576 = a * 16 + b div 16"
  using addr_div_20_aux [of "b mod 16" c d a "b div 16"] assms by simp

lemma ipv4_addr_num: "ipv4_addr (a, b, c, d) = a * 16777216 + b * 65536 + c * 256 + d"
  by (simp add: ipv4_addr_def)

lemma private_block_quad:
  assumes "octets q"
  shows "in_private_block (ipv4_addr q) = private_quad q"
proof -
  obtain a b c d where q: "q = (a, b, c, d)" by (cases q) auto
  from assms q have bd: "a < 256" "b < 256" "c < 256" "d < 256"
    by (simp_all add: octets_def)
  have d24: "ipv4_addr q div 16777216 = a"
    unfolding q ipv4_addr_num using bd by (simp only: addr_div_24)
  have d16: "ipv4_addr q div 65536 = a * 256 + b"
    unfolding q ipv4_addr_num using bd by (simp only: addr_div_16)
  have d20: "ipv4_addr q div 1048576 = a * 16 + b div 16"
    unfolding q ipv4_addr_num using bd by (simp only: addr_div_20)
  have b10: "in_block (ipv4_addr q) (ipv4_addr (10, 0, 0, 0)) 8 = (a = 10)"
    by (simp add: in_block_def d24 ipv4_addr_num)
  have b127: "in_block (ipv4_addr q) (ipv4_addr (127, 0, 0, 0)) 8 = (a = 127)"
    by (simp add: in_block_def d24 ipv4_addr_num)
  have b192: "in_block (ipv4_addr q) (ipv4_addr (192, 168, 0, 0)) 16 = (a = 192 \<and> b = 168)"
  proof -
    have "(a * 256 + b = 49320) = (a = 192 \<and> b = 168)"
    proof
      assume e: "a * 256 + b = 49320"
      with bd have "a = 192" by linarith
      with e show "a = 192 \<and> b = 168" by simp
    qed simp
    then show ?thesis by (simp add: in_block_def d16 ipv4_addr_num)
  qed
  have b172: "in_block (ipv4_addr q) (ipv4_addr (172, 16, 0, 0)) 12 =
                (a = 172 \<and> 16 \<le> b \<and> b \<le> 31)"
  proof -
    have "(a * 16 + b div 16 = 2753) = (a = 172 \<and> 16 \<le> b \<and> b \<le> 31)"
    proof
      assume e: "a * 16 + b div 16 = 2753"
      from bd have "b div 16 < 16" by simp
      with e have a: "a = 172" by linarith
      with e have "b div 16 = 1" by simp
      then have "16 \<le> b \<and> b \<le> 31" by linarith
      with a show "a = 172 \<and> 16 \<le> b \<and> b \<le> 31" by simp
    next
      assume "a = 172 \<and> 16 \<le> b \<and> b \<le> 31"
      then have "a = 172" and "b div 16 = 1" by linarith+
      then show "a * 16 + b div 16 = 2753" by simp
    qed
    then show ?thesis by (simp add: in_block_def d20 ipv4_addr_num)
  qed
  show ?thesis
    unfolding in_private_block_def b10 b127 b192 b172 by (auto simp: private_quad_def q)
qed

subsection \<open>Conversion and splitting\<close>

lemma digit_not_int_space: "is_digit c \<Longrightarrow> \<not> is_int_space c"
  by (auto simp: is_digit_def is_int_space_def Let_def)

lemma digit_not_space: "is_digit c \<Longrightarrow> \<not> is_space c"
  by (auto simp: is_digit_def is_space_def Let_def)

lemma space_not_word: "is_space c \<Longrightarrow> \<not> is_word c"
  by (auto simp: is_space_def is_word_def Let_def)

lemma digit_not_punct:
  "is_digit c \<Longrightarrow> c \<noteq> CHR ''.'' \<and> c \<noteq> CHR '':'' \<and> c \<noteq> CHR ''+'' \<and> c \<noteq> CHR ''-'' \<and> c \<noteq> CHR ''_''"
  by (auto simp: is_digit_def Let_def)

lemma underscores_ok_digits: "s \<noteq> [] \<Longrightarrow> list_all is_digit s \<Longrightarrow> underscores_ok s"
  by (induction s rule: underscores_ok.induct) auto

lemma digits_Cons: "digits s \<Longrightarrow> \<exists>c cs. s = c # cs \<and> is_digit c \<and> list_all is_digit cs"
  by (cases s) (auto simp: digits_def)

lemma digits_py_int:
  assumes "digits s"
  shows "py_int s = (if length s \<le> max_str_digits then Some (int (dec_val s)) else None)"
proof -
  from assms obtain c cs where s: "s = c # cs" and c: "is_digit c" and cs: "list_all is_digit cs"
    using digits_Cons by blast
  from c have nsp: "\<not> is_int_space c" by (rule digit_not_int_space)
  from c have np: "c \<noteq> CHR ''+''" "c \<noteq> CHR ''-''" using digit_not_punct by blast+
  from c cs have all: "\<forall>x\<in>set s. is_digit x \<or> x = CHR ''_''"
    by (auto simp: s list_all_iff)
  have t: "takeWhile (\<lambda>c. is_digit c \<or> c = CHR ''_'') s = s"
    using all by simp
  have d: "dropWhile (\<lambda>c. is_digit c \<or> c = CHR ''_'') s = []"
    using all by simp
  have f: "filter is_digit s = s"
    using c cs by (auto simp: s list_all_iff filter_id_conv)
  have u: "underscores_ok s"
    using assms by (simp add: digits_def underscores_ok_digits)
  have "py_int (c # cs) =
          (if length (c # cs) \<le> max_str_digits then Some (int (dec_val (c # cs))) else None)"
    using nsp np t d f u unfolding s py_int_def by (simp add: Let_def)
  then show ?thesis by (simp add: s)
qed

lemma digits_short_py_int:
  "digits s \<Longrightarrow> length s \<le> max_str_digits \<Longrightarrow> py_int s = Some (int (dec_val s))"
  by (simp add: digits_py_int)






lemma split_on_no_sep: "sep \<notin> set a \<Longrightarrow> split_on sep a = [a]"
  by (induction a) auto

lemma split_on_append: "sep \<notin> set a \<Longrightarrow> split_on sep (a @ sep # r) = a # split_on sep r"
  by (induction a) auto

lemma split_on_length: "p \<in> set (split_on sep s) \<Longrightarrow> length p \<le> length s"
proof (induction s arbitrary: p)
  case Nil
  then show ?case by simp
next
  case (Cons c cs)
  show ?case
  proof (cases "c = sep")
    case True
    with Cons show ?thesis by (auto simp: le_SucI)
  next
    case False
    obtain q qs where sp: "split_on sep cs = q # qs"
      by (cases "split_on sep cs") (cases cs; auto split: list.splits if_splits)+
    from Cons.IH [of q] sp have q: "length q \<le> length cs" by simp
    from Cons.IH sp have qs: "\<forall>x\<in>set qs. length x \<le> length cs" by simp
    from Cons.prems False sp have "p = c # q \<or> p \<in> set qs" by simp
    with q qs show ?thesis by (auto simp: le_SucI)
  qed
qed

lemma digits_no_dot: "digits a \<Longrightarrow> CHR ''.'' \<notin> set a"
  using digit_not_punct by (auto simp: digits_def list_all_iff)

lemma split_dotted:
  assumes "digits a" "digits b" "digits c" "digits d"
  shows "split_on CHR ''.'' (dotted a b c d) = [a, b, c, d]"
  using assms by (simp add: dotted_def split_on_append split_on_no_sep digits_no_dot)

lemma dotted_quad_dotted:
  assumes "digits a" "digits b" "digits c" "digits d"
  shows "dotted_quad (dotted a b c d) = Some (dec_val a, dec_val b, dec_val c, dec_val d)"
  using assms by (simp add: dotted_quad_def split_dotted)

lemma dotted_quad_SomeD:
  assumes "dotted_quad ip = Some q"
  shows "\<exists>a b c d. split_on CHR ''.'' ip = [a, b, c, d] \<and> digits a \<and> digits b \<and> digits c \<and>
           digits d \<and> q = (dec_val a, dec_val b, dec_val c, dec_val d)"
  using assms by (auto simp: dotted_quad_def split: list.splits if_splits)

lemma is_private_ip_pieces:
  assumes sp: "split_on CHR ''.'' ip = [a, b, c, d]" and da: "digits a" and db: "digits b"
  shows "is_private_ip ip =
           (length a \<le> max_str_digits \<and> length b \<le> max_str_digits \<and>
            private_quad (dec_val a, dec_val b, x, y))"
  by (simp add: is_private_ip_def sp digits_py_int [OF da] digits_py_int [OF db]
        private_quad_def)


lemma dec_val_append: "dec_val (a @ b) = foldl (\<lambda>acc c. 10 * acc + digit_val c) (dec_val a) b"
  by (simp add: dec_val_def)

lemma dec_val_zeros: "dec_val (replicate n CHR ''0'') = 0"
  by (induction n) (simp_all add: dec_val_def digit_val_def)

lemma dec_val_zeros_append: "dec_val (replicate n CHR ''0'' @ s) = dec_val s"
  by (simp add: dec_val_append dec_val_zeros) (simp add: dec_val_def)

lemma digits_zeros_append: "digits s \<Longrightarrow> digits (replicate n CHR ''0'' @ s)"
  by (auto simp: digits_def list_all_iff is_digit_def)




subsection \<open>The line pattern\<close>

lemma many1_SomeD:
  assumes "many1 P s = Some (a, r)"
  shows "a \<noteq> [] \<and> list_all P a \<and> s = a @ r"
proof -
  from assms have a: "a = takeWhile P s" and r: "r = dropWhile P s" and ne: "takeWhile P s \<noteq> []"
    by (auto simp: many1_def split: if_splits)
  have "list_all P (takeWhile P s)"
    by (auto simp: list_all_iff dest: set_takeWhileD)
  with a r ne show ?thesis by simp
qed

lemma many1_append:
  assumes "a \<noteq> []" "list_all P a" "r = [] \<or> \<not> P (hd r)"
  shows "many1 P (a @ r) = Some (a, r)"
proof -
  from assms(2) have all: "\<forall>x\<in>set a. P x" by (simp add: list_all_iff)
  from assms(3) have t: "takeWhile P r = []" by (simp add: takeWhile_eq_Nil_iff)
  from assms(3) have d: "dropWhile P r = r" by (cases r) auto
  from all t have "takeWhile P (a @ r) = a" by simp
  moreover from all d have "dropWhile P (a @ r) = r" by simp
  ultimately show ?thesis using assms(1) by (simp add: many1_def)
qed

lemma lit_SomeD: "lit c s = Some r \<Longrightarrow> s = c # r"
  by (auto simp: lit_def split: list.splits if_splits)

lemma lit_Cons: "lit c (c # r) = Some r"
  by (simp add: lit_def)

lemma many1_digits: "many1 is_digit s = Some (a, r) \<Longrightarrow> digits a \<and> s = a @ r"
  by (auto simp: digits_def dest: many1_SomeD)

lemma ipv4_tok_SomeD:
  assumes "ipv4_tok s = Some (g, r)"
  shows "\<exists>a b c d. g = dotted a b c d \<and> digits a \<and> digits b \<and> digits c \<and> digits d \<and> s = g @ r"
proof -
  from assms obtain a r1 r2 b r3 r4 c r5 r6 d where
    1: "many1 is_digit s = Some (a, r1)" and 2: "lit CHR ''.'' r1 = Some r2" and
    3: "many1 is_digit r2 = Some (b, r3)" and 4: "lit CHR ''.'' r3 = Some r4" and
    5: "many1 is_digit r4 = Some (c, r5)" and 6: "lit CHR ''.'' r5 = Some r6" and
    7: "many1 is_digit r6 = Some (d, r)" and g: "g = a @ ''.'' @ b @ ''.'' @ c @ ''.'' @ d"
    by (auto simp: ipv4_tok_def split: Option.bind_splits)
  from 1 3 5 7 have dg: "digits a" "digits b" "digits c" "digits d"
    by (auto dest: many1_digits)
  from 1 2 3 4 5 6 7 have "s = a @ CHR ''.'' # b @ CHR ''.'' # c @ CHR ''.'' # d @ r"
    by (auto dest!: many1_digits lit_SomeD)
  with g dg show ?thesis by (auto simp: dotted_def)
qed

lemma ipv4_tok_append:
  assumes "digits a" "digits b" "digits c" "digits d" "r = [] \<or> \<not> is_digit (hd r)"
  shows "ipv4_tok (dotted a b c d @ r) = Some (dotted a b c d, r)"
proof -
  have nd: "\<not> is_digit CHR ''.''" by (simp add: is_digit_def)
  have 1: "many1 is_digit (a @ CHR ''.'' # b @ CHR ''.'' # c @ CHR ''.'' # d @ r) =
             Some (a, CHR ''.'' # b @ CHR ''.'' # c @ CHR ''.'' # d @ r)"
    using assms(1) nd by (intro many1_append) (simp_all add: digits_def)
  have 2: "many1 is_digit (b @ CHR ''.'' # c @ CHR ''.'' # d @ r) =
             Some (b, CHR ''.'' # c @ CHR ''.'' # d @ r)"
    using assms(2) nd by (intro many1_append) (simp_all add: digits_def)
  have 3: "many1 is_digit (c @ CHR ''.'' # d @ r) = Some (c, CHR ''.'' # d @ r)"
    using assms(3) nd by (intro many1_append) (simp_all add: digits_def)
  have 4: "many1 is_digit (d @ r) = Some (d, r)"
    using assms(4,5) by (intro many1_append) (simp_all add: digits_def)
  show ?thesis
    by (simp add: ipv4_tok_def dotted_def 1 2 3 4 lit_Cons)
qed

lemma proto_tok_SomeD:
  "proto_tok s = Some (p, r) \<Longrightarrow> (p = ''TCP'' \<or> p = ''UDP'') \<and> s = p @ r"
  by (auto simp: proto_tok_def split: if_splits)

lemma proto_tok_append:
  "p = ''TCP'' \<or> p = ''UDP'' \<Longrightarrow> proto_tok (p @ r) = Some (p, r)"
  by (auto simp: proto_tok_def)

lemma match_line_SomeD:
  assumes "match_line line = Some (p, lip, lport, rip, rport, st)"
  shows "(p = ''TCP'' \<or> p = ''UDP'') \<and> digits lport \<and> digits rport \<and>
         (\<exists>a b c d. lip = dotted a b c d \<and> digits a \<and> digits b \<and> digits c \<and> digits d) \<and>
         (\<exists>a b c d. rip = dotted a b c d \<and> digits a \<and> digits b \<and> digits c \<and> digits d) \<and>
         st \<noteq> [] \<and> list_all is_word st"
proof -
  from assms obtain r1 s1 r2 r3 r4 r5 s2 r6 r7 r8 r9 s3 r10 r11 where
    1: "proto_tok (dropWhile is_space line) = Some (p, r1)" and
    2: "many1 is_space r1 = Some (s1, r2)" and
    3: "ipv4_tok r2 = Some (lip, r3)" and
    4: "lit CHR '':'' r3 = Some r4" and
    5: "many1 is_digit r4 = Some (lport, r5)" and
    6: "many1 is_space r5 = Some (s2, r6)" and
    7: "ipv4_tok r6 = Some (rip, r7)" and
    8: "lit CHR '':'' r7 = Some r8" and
    9: "many1 is_digit r8 = Some (rport, r9)" and
    10: "many1 is_space r9 = Some (s3, r10)" and
    11: "many1 is_word r10 = Some (st, r11)"
    by (auto simp: match_line_def split: Option.bind_splits)
  from 1 have "p = ''TCP'' \<or> p = ''UDP''" by (auto dest: proto_tok_SomeD)
  moreover from 5 have "digits lport" by (auto dest: many1_digits)
  moreover from 9 have "digits rport" by (auto dest: many1_digits)
  moreover from 3 have "\<exists>a b c d. lip = dotted a b c d \<and> digits a \<and> digits b \<and> digits c \<and> digits d"
    using ipv4_tok_SomeD by blast
  moreover from 7 have "\<exists>a b c d. rip = dotted a b c d \<and> digits a \<and> digits b \<and> digits c \<and> digits d"
    using ipv4_tok_SomeD by blast
  moreover from 11 have "st \<noteq> [] \<and> list_all is_word st" by (auto dest: many1_SomeD)
  ultimately show ?thesis by blast
qed

lemma stop_space_digits: "digits a \<Longrightarrow> a @ r = [] \<or> \<not> is_space (hd (a @ r))"
  using digit_not_space by (cases a) (auto simp: digits_def)

lemma stop_digit_spaces:
  "s \<noteq> [] \<Longrightarrow> list_all is_space s \<Longrightarrow> s @ r = [] \<or> \<not> is_digit (hd (s @ r))"
  using digit_not_space by (cases s) auto

lemma stop_space_word:
  "s \<noteq> [] \<Longrightarrow> list_all is_word s \<Longrightarrow> s @ r = [] \<or> \<not> is_space (hd (s @ r))"
  using space_not_word by (cases s) auto

lemma digits_dotted_append: "digits a \<Longrightarrow> dotted a b c d @ r = a @ (''.'' @ b @ ''.'' @ c @ ''.'' @ d @ r)"
  by (simp add: dotted_def)

lemma stop_space_dotted:
  "digits a \<Longrightarrow> dotted a b c d @ r = [] \<or> \<not> is_space (hd (dotted a b c d @ r))"
  by (simp only: digits_dotted_append stop_space_digits)

lemma match_line_shape:
  assumes sp0: "list_all is_space sp0"
      and p: "p = ''TCP'' \<or> p = ''UDP''"
      and sp1: "sp1 \<noteq> []" "list_all is_space sp1"
      and l: "digits la" "digits lb" "digits lc" "digits ld" "digits lport"
      and sp2: "sp2 \<noteq> []" "list_all is_space sp2"
      and r: "digits ra" "digits rb" "digits rc" "digits rd" "digits rport"
      and sp3: "sp3 \<noteq> []" "list_all is_space sp3"
      and st: "st \<noteq> []" "list_all is_word st"
      and rest: "rest = [] \<or> \<not> is_word (hd rest)"
  shows "match_line (sp0 @ p @ sp1 @ dotted la lb lc ld @ '':'' @ lport @ sp2 @
                     dotted ra rb rc rd @ '':'' @ rport @ sp3 @ st @ rest) =
         Some (p, dotted la lb lc ld, lport, dotted ra rb rc rd, rport, st)"
proof -
  let ?t11 = "st @ rest"
  let ?t10 = "sp3 @ ?t11"
  let ?t9 = "rport @ ?t10"
  let ?t8 = "CHR '':'' # ?t9"
  let ?t7 = "dotted ra rb rc rd @ ?t8"
  let ?t6 = "sp2 @ ?t7"
  let ?t5 = "lport @ ?t6"
  let ?t4 = "CHR '':'' # ?t5"
  let ?t3 = "dotted la lb lc ld @ ?t4"
  let ?t2 = "sp1 @ ?t3"
  let ?t1 = "p @ ?t2"
  have nd: "\<not> is_digit CHR '':''" by (simp add: is_digit_def)
  have 0: "dropWhile is_space (sp0 @ ?t1) = ?t1"
  proof -
    from sp0 have "dropWhile is_space (sp0 @ ?t1) = dropWhile is_space ?t1"
      by (simp add: list_all_iff)
    moreover from p have "dropWhile is_space ?t1 = ?t1"
      by (auto simp: is_space_def)
    ultimately show ?thesis by simp
  qed
  have 1: "proto_tok ?t1 = Some (p, ?t2)"
    using p by (rule proto_tok_append)
  have 2: "many1 is_space ?t2 = Some (sp1, ?t3)"
    using sp1 stop_space_dotted [OF l(1)] by (rule many1_append)
  have 3: "ipv4_tok ?t3 = Some (dotted la lb lc ld, ?t4)"
    using l(1-4) by (rule ipv4_tok_append) (simp add: nd)
  have lp: "lport \<noteq> []" "list_all is_digit lport"
    using l(5) by (simp_all add: digits_def)
  have rp: "rport \<noteq> []" "list_all is_digit rport"
    using r(5) by (simp_all add: digits_def)
  have 5: "many1 is_digit ?t5 = Some (lport, ?t6)"
    by (rule many1_append [OF lp stop_digit_spaces [OF sp2]])
  have 6: "many1 is_space ?t6 = Some (sp2, ?t7)"
    using sp2 stop_space_dotted [OF r(1)] by (rule many1_append)
  have 7: "ipv4_tok ?t7 = Some (dotted ra rb rc rd, ?t8)"
    using r(1-4) by (rule ipv4_tok_append) (simp add: nd)
  have 9: "many1 is_digit ?t9 = Some (rport, ?t10)"
    by (rule many1_append [OF rp stop_digit_spaces [OF sp3]])
  have 10: "many1 is_space ?t10 = Some (sp3, ?t11)"
    using sp3 stop_space_word [OF st] by (rule many1_append)
  have 11: "many1 is_word ?t11 = Some (st, rest)"
    using st rest by (rule many1_append)
  have "match_line (sp0 @ ?t1) =
          Some (p, dotted la lb lc ld, lport, dotted ra rb rc rd, rport, st)"
    unfolding match_line_def 0 by (simp add: 1 2 3 5 6 7 9 10 11 lit_Cons)
  then show ?thesis by simp
qed

text \<open>
  The scan and the pattern describe the same lines. A match is a reading of the line as
  the pattern describes it: white space, the protocol, white space, the local address, a
  colon, the local port, white space, the remote address, a colon, the remote port, white
  space and the state, which no word character follows.
\<close>

lemma match_line_decomposition:
  assumes "match_line line = Some (p, lip, lport, rip, rport, st)"
  shows "\<exists>sp0 sp1 sp2 sp3 rest.
           line = sp0 @ p @ sp1 @ lip @ '':'' @ lport @ sp2 @ rip @ '':'' @ rport @ sp3 @ st @ rest \<and>
           list_all is_space sp0 \<and>
           sp1 \<noteq> [] \<and> list_all is_space sp1 \<and>
           sp2 \<noteq> [] \<and> list_all is_space sp2 \<and>
           sp3 \<noteq> [] \<and> list_all is_space sp3 \<and>
           (rest = [] \<or> \<not> is_word (hd rest))"
proof -
  from assms obtain r1 s1 r2 r3 r4 r5 s2 r6 r7 r8 r9 s3 r10 r11 where
    1: "proto_tok (dropWhile is_space line) = Some (p, r1)" and
    2: "many1 is_space r1 = Some (s1, r2)" and
    3: "ipv4_tok r2 = Some (lip, r3)" and
    4: "lit CHR '':'' r3 = Some r4" and
    5: "many1 is_digit r4 = Some (lport, r5)" and
    6: "many1 is_space r5 = Some (s2, r6)" and
    7: "ipv4_tok r6 = Some (rip, r7)" and
    8: "lit CHR '':'' r7 = Some r8" and
    9: "many1 is_digit r8 = Some (rport, r9)" and
    10: "many1 is_space r9 = Some (s3, r10)" and
    11: "many1 is_word r10 = Some (st, r11)"
    by (auto simp: match_line_def split: Option.bind_splits)
  have l0: "line = takeWhile is_space line @ dropWhile is_space line" by simp
  have a0: "list_all is_space (takeWhile is_space line)"
    by (auto simp: list_all_iff dest: set_takeWhileD)
  from 1 have e1: "dropWhile is_space line = p @ r1" by (auto dest: proto_tok_SomeD)
  from 2 have e2: "r1 = s1 @ r2" and n2: "s1 \<noteq> []" "list_all is_space s1"
    by (auto dest: many1_SomeD)
  from 3 have e3: "r2 = lip @ r3" using ipv4_tok_SomeD by blast
  from 4 have e4: "r3 = CHR '':'' # r4" by (rule lit_SomeD)
  from 5 have e5: "r4 = lport @ r5" by (auto dest: many1_SomeD)
  from 6 have e6: "r5 = s2 @ r6" and n6: "s2 \<noteq> []" "list_all is_space s2"
    by (auto dest: many1_SomeD)
  from 7 have e7: "r6 = rip @ r7" using ipv4_tok_SomeD by blast
  from 8 have e8: "r7 = CHR '':'' # r8" by (rule lit_SomeD)
  from 9 have e9: "r8 = rport @ r9" by (auto dest: many1_SomeD)
  from 10 have e10: "r9 = s3 @ r10" and n10: "s3 \<noteq> []" "list_all is_space s3"
    by (auto dest: many1_SomeD)
  from 11 have e11: "r10 = st @ r11" and r11: "r11 = dropWhile is_word r10"
    by (auto simp: many1_def split: if_splits)
  from r11 have stop: "r11 = [] \<or> \<not> is_word (hd r11)"
    using hd_dropWhile [of is_word r10] by auto
  have "line = takeWhile is_space line @ p @ s1 @ lip @ '':'' @ lport @ s2 @ rip @ '':'' @
                 rport @ s3 @ st @ r11"
    using l0 e1 e2 e3 e4 e5 e6 e7 e8 e9 e10 e11 by simp
  with a0 n2 n6 n10 stop show ?thesis by blast
qed

text \<open>
  Conversely, whenever a line can be read as the pattern describes (with any non-empty run
  of word characters as the state), the scan matches it with the same groups, the state
  taken as far as it goes, as the greedy \<^verbatim>\<open>\w+\<close> at the end of the pattern does.
\<close>

lemma match_line_complete:
  assumes sp0: "list_all is_space sp0"
      and p: "p = ''TCP'' \<or> p = ''UDP''"
      and sp1: "sp1 \<noteq> []" "list_all is_space sp1"
      and l: "digits la" "digits lb" "digits lc" "digits ld" "digits lport"
      and sp2: "sp2 \<noteq> []" "list_all is_space sp2"
      and r: "digits ra" "digits rb" "digits rc" "digits rd" "digits rport"
      and sp3: "sp3 \<noteq> []" "list_all is_space sp3"
      and st: "st \<noteq> []" "list_all is_word st"
  shows "match_line (sp0 @ p @ sp1 @ dotted la lb lc ld @ '':'' @ lport @ sp2 @
                     dotted ra rb rc rd @ '':'' @ rport @ sp3 @ st @ rest) =
         Some (p, dotted la lb lc ld, lport, dotted ra rb rc rd, rport,
               st @ takeWhile is_word rest)"
proof -
  let ?st = "st @ takeWhile is_word rest"
  let ?rest = "dropWhile is_word rest"
  have w: "list_all is_word (takeWhile is_word rest)"
    by (auto simp: list_all_iff dest: set_takeWhileD)
  from st w have st': "?st \<noteq> []" "list_all is_word ?st" by simp_all
  have stop: "?rest = [] \<or> \<not> is_word (hd ?rest)"
    using hd_dropWhile [of is_word rest] by auto
  have "match_line (sp0 @ p @ sp1 @ dotted la lb lc ld @ '':'' @ lport @ sp2 @
                     dotted ra rb rc rd @ '':'' @ rport @ sp3 @ ?st @ ?rest) =
         Some (p, dotted la lb lc ld, lport, dotted ra rb rc rd, rport, ?st)"
    using sp0 p sp1 l sp2 r sp3 st' stop by (rule match_line_shape)
  then show ?thesis by simp
qed

subsection \<open>The parser loop\<close>

lemma parse_loop_match:
  assumes "match_line line = Some (p, lip, lport, rip, rport, st)"
  shows "parse_loop acc (line # lines) =
     (if rip \<notin> set excluded_literals \<and> \<not> is_private_ip rip
      then (if length lport \<le> max_str_digits \<and> length rport \<le> max_str_digits
            then parse_loop
                   (acc @ [\<lparr>protocol = p, local_ip = lip, local_port = int (dec_val lport),
                            remote_ip = rip, remote_port = int (dec_val rport), state = st\<rparr>])
                   lines
            else Inl ValueError)
      else parse_loop acc lines)"
proof -
  from assms have "digits lport" and "digits rport"
    using match_line_SomeD by blast+
  then have "py_int lport =
               (if length lport \<le> max_str_digits then Some (int (dec_val lport)) else None)"
        and "py_int rport =
               (if length rport \<le> max_str_digits then Some (int (dec_val rport)) else None)"
    by (simp_all add: digits_py_int)
  with assms show ?thesis by simp
qed

lemma parse_loop_no_match:
  "match_line line = None \<Longrightarrow> parse_loop acc (line # lines) = parse_loop acc lines"
  by simp

lemma match_line_kept:
  assumes m: "match_line line = Some (p, lip, lport, rip, rport, st)"
      and f: "rip \<notin> set excluded_literals \<and> \<not> is_private_ip rip"
  shows "kept \<lparr>protocol = p, local_ip = lip, local_port = lp, remote_ip = rip,
                remote_port = rp, state = st\<rparr>"
proof -
  from m obtain a b c d where "rip = dotted a b c d" "digits a" "digits b" "digits c" "digits d"
    using match_line_SomeD by blast
  then have "dotted_quad rip \<noteq> None"
    by (simp add: dotted_quad_dotted)
  with f show ?thesis by (simp add: kept_def)
qed

lemma parse_loop_kept:
  "list_all kept acc \<Longrightarrow> parse_loop acc lines = Inr conns \<Longrightarrow> list_all kept conns"
proof (induction lines arbitrary: acc)
  case Nil
  then show ?case by simp
next
  case (Cons line lines)
  show ?case
  proof (cases "match_line line")
    case None
    with Cons.prems(2) have "parse_loop acc lines = Inr conns"
      by (simp only: parse_loop_no_match)
    with Cons.prems(1) show ?thesis by (rule Cons.IH)
  next
    case (Some g)
    obtain p lip lport rip rport st where g: "g = (p, lip, lport, rip, rport, st)"
      by (cases g) auto
    note m = Some [unfolded g]
    let ?c = "\<lparr>protocol = p, local_ip = lip, local_port = int (dec_val lport),
               remote_ip = rip, remote_port = int (dec_val rport), state = st\<rparr>"
    note eq = parse_loop_match [OF m, of acc lines]
    show ?thesis
    proof (cases "rip \<notin> set excluded_literals \<and> \<not> is_private_ip rip")
      case True
      then have k: "kept ?c" using match_line_kept [OF m] by blast
      from True eq Cons.prems(2)
      have "parse_loop (acc @ [?c]) lines = Inr conns"
        by (simp split: if_splits del: parse_loop.simps)
      moreover from k Cons.prems(1) have "list_all kept (acc @ [?c])" by simp
      ultimately show ?thesis using Cons.IH by blast
    next
      case False
      with eq Cons.prems(2) have "parse_loop acc lines = Inr conns"
        by (simp split: if_splits del: parse_loop.simps)
      with Cons.prems(1) show ?thesis by (rule Cons.IH)
    qed
  qed
qed

lemma match_line_lengths:
  assumes "match_line line = Some (p, lip, lport, rip, rport, st)"
  shows "length lport \<le> length line \<and> length rport \<le> length line \<and> length rip \<le> length line"
proof -
  from match_line_decomposition [OF assms] obtain sp0 sp1 sp2 sp3 rest where
    "line = sp0 @ p @ sp1 @ lip @ '':'' @ lport @ sp2 @ rip @ '':'' @ rport @ sp3 @ st @ rest"
    by blast
  then show ?thesis by simp
qed

lemma parse_loop_short:
  "list_all (\<lambda>c. kept c \<and> length (remote_ip c) \<le> max_str_digits) acc \<Longrightarrow>
   \<forall>line\<in>set lines. length line \<le> max_str_digits \<Longrightarrow>
   \<exists>conns. parse_loop acc lines = Inr conns \<and>
           list_all (\<lambda>c. kept c \<and> length (remote_ip c) \<le> max_str_digits) conns"
proof (induction lines arbitrary: acc)
  case Nil
  then show ?case by simp
next
  case (Cons line lines)
  from Cons.prems(2) have short: "length line \<le> max_str_digits"
    and rest: "\<forall>l\<in>set lines. length l \<le> max_str_digits"
    by simp_all
  show ?case
  proof (cases "match_line line")
    case None
    then show ?thesis
      using Cons.IH [OF Cons.prems(1) rest] by (simp only: parse_loop_no_match)
  next
    case (Some g)
    obtain p lip lport rip rport st where g: "g = (p, lip, lport, rip, rport, st)"
      by (cases g) auto
    note m = Some [unfolded g]
    let ?c = "\<lparr>protocol = p, local_ip = lip, local_port = int (dec_val lport),
               remote_ip = rip, remote_port = int (dec_val rport), state = st\<rparr>"
    from match_line_lengths [OF m] short
    have len: "length lport \<le> max_str_digits" "length rport \<le> max_str_digits"
              "length rip \<le> max_str_digits"
      by simp_all
    show ?thesis
    proof (cases "rip \<notin> set excluded_literals \<and> \<not> is_private_ip rip")
      case True
      then have "kept ?c" using match_line_kept [OF m] by blast
      with len Cons.prems(1)
      have "list_all (\<lambda>c. kept c \<and> length (remote_ip c) \<le> max_str_digits) (acc @ [?c])"
        by simp
      from Cons.IH [OF this rest] obtain conns where
        "parse_loop (acc @ [?c]) lines = Inr conns"
        "list_all (\<lambda>c. kept c \<and> length (remote_ip c) \<le> max_str_digits) conns"
        by blast
      moreover from True len have "parse_loop acc (line # lines) = parse_loop (acc @ [?c]) lines"
        by (simp only: parse_loop_match [OF m] simp_thms if_True)
      ultimately show ?thesis by simp
    next
      case False
      then have "parse_loop acc (line # lines) = parse_loop acc lines"
        by (simp only: parse_loop_match [OF m] simp_thms if_False)
      with Cons.IH [OF Cons.prems(1) rest] show ?thesis by simp
    qed
  qed
qed

lemma kept_pieces:
  assumes "kept c"
  shows "remote_ip c \<notin> set excluded_literals \<and>
         (\<exists>p1 p2 p3 p4. split_on CHR ''.'' (remote_ip c) = [p1, p2, p3, p4] \<and>
            digits p1 \<and> digits p2 \<and> digits p3 \<and> digits p4 \<and>
            dotted_quad (remote_ip c) = Some (dec_val p1, dec_val p2, dec_val p3, dec_val p4) \<and>
            \<not> (length p1 \<le> max_str_digits \<and> length p2 \<le> max_str_digits \<and>
               private_quad (dec_val p1, dec_val p2, dec_val p3, dec_val p4)))"
proof -
  from assms obtain q where q: "dotted_quad (remote_ip c) = Some q"
    by (auto simp: kept_def)
  then obtain p1 p2 p3 p4 where
    sp: "split_on CHR ''.'' (remote_ip c) = [p1, p2, p3, p4]" and
    d: "digits p1" "digits p2" "digits p3" "digits p4" and
    qv: "q = (dec_val p1, dec_val p2, dec_val p3, dec_val p4)"
    using dotted_quad_SomeD by blast
  from assms have "\<not> is_private_ip (remote_ip c)" by (simp add: kept_def)
  then have "\<not> (length p1 \<le> max_str_digits \<and> length p2 \<le> max_str_digits \<and>
               private_quad (dec_val p1, dec_val p2, dec_val p3, dec_val p4))"
    using is_private_ip_pieces [OF sp d(1,2)] by simp
  with assms sp d q qv show ?thesis by (auto simp: kept_def)
qed

text \<open>
  C5, amended. Whenever the parser returns a connection list, every record in it has a
  remote address that is none of the literals 0.0.0.0, 127.0.0.1, :: and ::1 and is a
  dotted quad of digit strings; if the first two of them have no more digits than the limit
  of \<^verbatim>\<open>int\<close>, the address is outside the private patterns 10.x.x.x, 172.16-31.x.x,
  192.168.x.x and 127.x.x.x, and for octets outside the four private blocks. When no input
  line is longer than the limit, the parser does return a list, and every record's remote
  address is outside the private patterns and blocks. These records are the connections
  that \<^const>\<open>analyze_connections\<close> stores and aggregates.
\<close>

theorem kept_remote_addresses:
  "(parse_netstat_output lines = Inr conns \<and> c \<in> set conns \<longrightarrow>
      remote_ip c \<notin> set excluded_literals \<and>
      (\<exists>p1 p2 p3 p4.
          split_on CHR ''.'' (remote_ip c) = [p1, p2, p3, p4] \<and>
          digits p1 \<and> digits p2 \<and> digits p3 \<and> digits p4 \<and>
          (length p1 \<le> max_str_digits \<and> length p2 \<le> max_str_digits \<longrightarrow>
             \<not> private_quad (dec_val p1, dec_val p2, dec_val p3, dec_val p4) \<and>
             (octets (dec_val p1, dec_val p2, dec_val p3, dec_val p4) \<longrightarrow>
                \<not> in_private_block (ipv4_addr (dec_val p1, dec_val p2, dec_val p3, dec_val p4)))))) \<and>
   ((\<forall>line\<in>set lines. length line \<le> max_str_digits) \<longrightarrow>
      (\<exists>kept_conns. parse_netstat_output lines = Inr kept_conns \<and>
         (\<forall>k\<in>set kept_conns.
            remote_ip k \<notin> set excluded_literals \<and>
            (\<exists>q. dotted_quad (remote_ip k) = Some q \<and> \<not> private_quad q \<and>
                 (octets q \<longrightarrow> \<not> in_private_block (ipv4_addr q)))))) \<and>
   (analyze_connections lines net set_order w = Inr w' \<longrightarrow>
      parse_netstat_output lines = Inr (connections w'))"
proof (intro conjI impI)
  assume h: "parse_netstat_output lines = Inr conns \<and> c \<in> set conns"
  have "list_all kept []" by simp
  with h have "list_all kept conns"
    unfolding parse_netstat_output_def using parse_loop_kept by blast
  with h have "kept c" by (simp add: list_all_iff)
  from kept_pieces [OF this] obtain p1 p2 p3 p4 where
    sp: "split_on CHR ''.'' (remote_ip c) = [p1, p2, p3, p4]" and
    d: "digits p1" "digits p2" "digits p3" "digits p4" and
    n: "\<not> (length p1 \<le> max_str_digits \<and> length p2 \<le> max_str_digits \<and>
          private_quad (dec_val p1, dec_val p2, dec_val p3, dec_val p4))"
    by blast
  from n have "length p1 \<le> max_str_digits \<and> length p2 \<le> max_str_digits \<longrightarrow>
             \<not> private_quad (dec_val p1, dec_val p2, dec_val p3, dec_val p4) \<and>
             (octets (dec_val p1, dec_val p2, dec_val p3, dec_val p4) \<longrightarrow>
                \<not> in_private_block (ipv4_addr (dec_val p1, dec_val p2, dec_val p3, dec_val p4)))"
    by (auto simp: private_block_quad)
  with sp d show "\<exists>p1 p2 p3 p4.
          split_on CHR ''.'' (remote_ip c) = [p1, p2, p3, p4] \<and>
          digits p1 \<and> digits p2 \<and> digits p3 \<and> digits p4 \<and>
          (length p1 \<le> max_str_digits \<and> length p2 \<le> max_str_digits \<longrightarrow>
             \<not> private_quad (dec_val p1, dec_val p2, dec_val p3, dec_val p4) \<and>
             (octets (dec_val p1, dec_val p2, dec_val p3, dec_val p4) \<longrightarrow>
                \<not> in_private_block (ipv4_addr (dec_val p1, dec_val p2, dec_val p3, dec_val p4))))"
    by blast
  from \<open>kept c\<close> show "remote_ip c \<notin> set excluded_literals" by (simp add: kept_def)
next
  assume short: "\<forall>line\<in>set lines. length line \<le> max_str_digits"
  have "list_all (\<lambda>c. kept c \<and> length (remote_ip c) \<le> max_str_digits) []" by simp
  from parse_loop_short [OF this short] obtain kc where
    p: "parse_netstat_output lines = Inr kc" and
    k: "list_all (\<lambda>c. kept c \<and> length (remote_ip c) \<le> max_str_digits) kc"
    unfolding parse_netstat_output_def by blast
  have "\<forall>k\<in>set kc.
            remote_ip k \<notin> set excluded_literals \<and>
            (\<exists>q. dotted_quad (remote_ip k) = Some q \<and> \<not> private_quad q \<and>
                 (octets q \<longrightarrow> \<not> in_private_block (ipv4_addr q)))"
  proof
    fix x assume "x \<in> set kc"
    with k have kx: "kept x" and lx: "length (remote_ip x) \<le> max_str_digits"
      by (simp_all add: list_all_iff)
    from kept_pieces [OF kx] obtain p1 p2 p3 p4 where
      sp: "split_on CHR ''.'' (remote_ip x) = [p1, p2, p3, p4]" and
      q: "dotted_quad (remote_ip x) = Some (dec_val p1, dec_val p2, dec_val p3, dec_val p4)" and
      n: "\<not> (length p1 \<le> max_str_digits \<and> length p2 \<le> max_str_digits \<and>
            private_quad (dec_val p1, dec_val p2, dec_val p3, dec_val p4))" and
      nl: "remote_ip x \<notin> set excluded_literals"
      by blast
    from sp have "length p1 \<le> length (remote_ip x)" "length p2 \<le> length (remote_ip x)"
      using split_on_length [of p1 "CHR ''.''" "remote_ip x"]
            split_on_length [of p2 "CHR ''.''" "remote_ip x"] by simp_all
    with lx n have np: "\<not> private_quad (dec_val p1, dec_val p2, dec_val p3, dec_val p4)"
      by simp
    then have "octets (dec_val p1, dec_val p2, dec_val p3, dec_val p4) \<longrightarrow>
        \<not> in_private_block (ipv4_addr (dec_val p1, dec_val p2, dec_val p3, dec_val p4))"
      by (simp add: private_block_quad)
    with nl q np show "remote_ip x \<notin> set excluded_literals \<and>
            (\<exists>q. dotted_quad (remote_ip x) = Some q \<and> \<not> private_quad q \<and>
                 (octets q \<longrightarrow> \<not> in_private_block (ipv4_addr q)))"
      by blast
  qed
  with p show "\<exists>kept_conns. parse_netstat_output lines = Inr kept_conns \<and>
         (\<forall>k\<in>set kept_conns.
            remote_ip k \<notin> set excluded_literals \<and>
            (\<exists>q. dotted_quad (remote_ip k) = Some q \<and> \<not> private_quad q \<and>
                 (octets q \<longrightarrow> \<not> in_private_block (ipv4_addr q))))"
    by blast
next
  assume "analyze_connections lines net set_order w = Inr w'"
  then show "parse_netstat_output lines = Inr (connections w')"
    by (auto simp: analyze_connections_def Let_def resolve_all_keeps
             split: sum.splits if_splits)
qed

subsection \<open>The example lines\<close>

lemma match_listening:
  "match_line ''TCP    0.0.0.0:80    0.0.0.0:0    LISTENING'' =
     Some (''TCP'', ''0.0.0.0'', ''80'', ''0.0.0.0'', ''0'', ''LISTENING'')"
  by (simp add: char_classes tokens)

lemma match_established:
  "match_line ''TCP    10.0.0.5:51000    93.184.216.34:443    ESTABLISHED'' =
     Some (''TCP'', ''10.0.0.5'', ''51000'', ''93.184.216.34'', ''443'', ''ESTABLISHED'')"
  by (simp add: char_classes tokens)

lemma match_garbage: "match_line ''garbage line'' = None"
  by (simp add: char_classes tokens)

lemma public_example: "\<not> is_private_ip ''93.184.216.34''"
  by (simp add: is_private_ip_def char_classes conversions)

lemma port_51000: "py_int ''51000'' = Some 51000"
  by (simp add: char_classes conversions)

lemma port_443: "py_int ''443'' = Some 443"
  by (simp add: char_classes conversions)

lemma parse_example:
  "parse_netstat_output
     [''TCP    0.0.0.0:80    0.0.0.0:0    LISTENING'',
      ''TCP    10.0.0.5:51000    93.184.216.34:443    ESTABLISHED'',
      ''garbage line''] =
   Inr [\<lparr>protocol = ''TCP'', local_ip = ''10.0.0.5'', local_port = 51000,
          remote_ip = ''93.184.216.34'', remote_port = 443, state = ''ESTABLISHED''\<rparr>]"
  by (simp add: parse_netstat_output_def match_listening match_established match_garbage
        public_example port_51000 port_443 excluded_literals_def)

lemma parse_established:
  "parse_netstat_output [''TCP    10.0.0.5:51000    93.184.216.34:443    ESTABLISHED''] =
     Inr [\<lparr>protocol = ''TCP'', local_ip = ''10.0.0.5'', local_port = 51000,
            remote_ip = ''93.184.216.34'', remote_port = 443, state = ''ESTABLISHED''\<rparr>]"
  by (simp add: parse_netstat_output_def match_established
        public_example port_51000 port_443 excluded_literals_def)

lemma quad_93: "dotted_quad ''93.184.216.34'' = Some (93, 184, 216, 34)"
  by (simp add: dotted_quad_def digits_def char_classes conversions)

lemma split_93: "split_on CHR ''.'' ''93.184.216.34'' = [''93'', ''184'', ''216'', ''34'']"
  by simp

text \<open>The one record of an established connection to a public address.\<close>

theorem kept_remote_addresses_witness:
  "parse_netstat_output [''TCP    10.0.0.5:51000    93.184.216.34:443    ESTABLISHED''] =
     Inr [\<lparr>protocol = ''TCP'', local_ip = ''10.0.0.5'', local_port = 51000,
            remote_ip = ''93.184.216.34'', remote_port = 443, state = ''ESTABLISHED''\<rparr>] \<and>
   ''93.184.216.34'' \<notin> set excluded_literals \<and>
   dotted_quad ''93.184.216.34'' = Some (93, 184, 216, 34) \<and>
   \<not> private_quad (93, 184, 216, 34) \<and>
   \<not> in_private_block (ipv4_addr (93, 184, 216, 34))"
proof -
  let ?line = "''TCP    10.0.0.5:51000    93.184.216.34:443    ESTABLISHED''"
  let ?c = "\<lparr>protocol = ''TCP'', local_ip = ''10.0.0.5'', local_port = 51000,
            remote_ip = ''93.184.216.34'', remote_port = 443, state = ''ESTABLISHED''\<rparr>"
  note inst = kept_remote_addresses [of "[?line]" "[?c]" ?c "\<lambda>ip. Timeout" "\<lambda>ips. ips" init init]
  have v: "dec_val ''93'' = 93" "dec_val ''184'' = 184" "dec_val ''216'' = 216"
          "dec_val ''34'' = 34"
    by (simp_all add: dec_val_def digit_val_def)
  have ln: "length ''93'' \<le> max_str_digits" "length ''184'' \<le> max_str_digits"
    by (simp_all add: max_str_digits_def)
  have o: "octets (93, 184, 216, 34)" by (simp add: octets_def)
  have first: "parse_netstat_output [?line] = Inr [?c] \<and> ?c \<in> set [?c]"
    by (simp add: parse_established)
  with inst obtain p1 p2 p3 p4 where
    lit: "remote_ip ?c \<notin> set excluded_literals" and
    sp: "split_on CHR ''.'' (remote_ip ?c) = [p1, p2, p3, p4]" and
    imp: "length p1 \<le> max_str_digits \<and> length p2 \<le> max_str_digits \<longrightarrow>
             \<not> private_quad (dec_val p1, dec_val p2, dec_val p3, dec_val p4) \<and>
             (octets (dec_val p1, dec_val p2, dec_val p3, dec_val p4) \<longrightarrow>
                \<not> in_private_block (ipv4_addr (dec_val p1, dec_val p2, dec_val p3, dec_val p4)))"
    by blast
  from sp have p: "p1 = ''93''" "p2 = ''184''" "p3 = ''216''" "p4 = ''34''"
    by (simp_all add: split_93)
  from imp ln o have a: "\<not> private_quad (93, 184, 216, 34)"
    and b: "\<not> in_private_block (ipv4_addr (93, 184, 216, 34))"
    by (simp_all add: p v)
  have short: "\<forall>line\<in>set [?line]. length line \<le> max_str_digits"
    by (simp add: max_str_digits_def)
  with inst obtain kc where kc: "parse_netstat_output [?line] = Inr kc" and
    every: "\<forall>k\<in>set kc. remote_ip k \<notin> set excluded_literals \<and>
              (\<exists>q. dotted_quad (remote_ip k) = Some q \<and> \<not> private_quad q \<and>
                   (octets q \<longrightarrow> \<not> in_private_block (ipv4_addr q)))"
    by blast
  from kc have "kc = [?c]" by (simp add: parse_established)
  with every obtain q where "dotted_quad ''93.184.216.34'' = Some q" and "\<not> private_quad q"
    by auto
  then have a': "\<not> private_quad (93, 184, 216, 34)" by (simp add: quad_93)
  from lit a a' b show ?thesis by (simp add: parse_established quad_93)
qed

lemma long_zero_line:
  "''TCP 1.2.3.4:5 '' @ replicate 4299 CHR ''0'' @ ''10.0.0.1:443 ESTABLISHED'' =
   [] @ ''TCP'' @ '' '' @ dotted ''1'' ''2'' ''3'' ''4'' @ '':'' @ ''5'' @ '' '' @
   dotted (replicate 4299 CHR ''0'' @ ''10'') ''0'' ''0'' ''1'' @ '':'' @ ''443'' @ '' '' @
   ''ESTABLISHED'' @ []"
  by (simp add: dotted_def)

lemma long_port_line:
  "''TCP 1.2.3.4:5 999.1.2.3:'' @ replicate 4301 CHR ''1'' @ '' ESTABLISHED'' =
   [] @ ''TCP'' @ '' '' @ dotted ''1'' ''2'' ''3'' ''4'' @ '':'' @ ''5'' @ '' '' @
   dotted ''999'' ''1'' ''2'' ''3'' @ '':'' @ replicate 4301 CHR ''1'' @ '' '' @
   ''ESTABLISHED'' @ []"
  by (simp add: dotted_def)

lemma small_digits:
  "digits ''0''" "digits ''1''" "digits ''2''" "digits ''3''" "digits ''4''" "digits ''5''"
  "digits ''10''" "digits ''443''" "digits ''999''"
  by (simp_all add: digits_def is_digit_def)

lemma one_space: "'' '' \<noteq> []" "list_all is_space '' ''" "list_all is_space []"
  by (simp_all add: is_space_def)

lemma established_word: "''ESTABLISHED'' \<noteq> []" "list_all is_word ''ESTABLISHED''"
  by (simp_all add: is_word_def)

lemma digits_ones: "0 < n \<Longrightarrow> digits (replicate n CHR ''1'')"
  by (auto simp: digits_def list_all_iff is_digit_def)

text \<open>
  C5, as stated, fails. A line whose remote address is 10.0.0.1 written with 4299 leading
  zeros matches the pattern; \<^verbatim>\<open>int\<close> rejects the first piece of 4301 digits inside
  \<^const>\<open>is_private_ip\<close>, whose \<^verbatim>\<open>except\<close> clause answers not private, and the record is
  kept although its address lies in 10.0.0.0/8. And a line with a port of 4301 digits makes
  the parser raise instead of returning a connection list.
\<close>

theorem kept_remote_addresses_counterexample:
  "parse_netstat_output
     [''TCP 1.2.3.4:5 '' @ replicate 4299 CHR ''0'' @ ''10.0.0.1:443 ESTABLISHED''] =
     Inr [\<lparr>protocol = ''TCP'', local_ip = ''1.2.3.4'', local_port = 5,
            remote_ip = replicate 4299 CHR ''0'' @ ''10.0.0.1'', remote_port = 443,
            state = ''ESTABLISHED''\<rparr>] \<and>
   dotted_quad (replicate 4299 CHR ''0'' @ ''10.0.0.1'') = Some (10, 0, 0, 1) \<and>
   private_quad (10, 0, 0, 1) \<and> octets (10, 0, 0, 1) \<and>
   in_private_block (ipv4_addr (10, 0, 0, 1)) \<and>
   parse_netstat_output
     [''TCP 1.2.3.4:5 999.1.2.3:'' @ replicate 4301 CHR ''1'' @ '' ESTABLISHED''] =
     Inl ValueError"
proof -
  let ?z = "replicate 4299 CHR ''0'' @ ''10''"
  let ?rip = "replicate 4299 CHR ''0'' @ ''10.0.0.1''"
  have e: "?rip = dotted ?z ''0'' ''0'' ''1''"
    by (simp add: dotted_def)
  have dz: "digits ?z"
    using small_digits(7) by (rule digits_zeros_append)
  have p: "''TCP'' = ''TCP'' \<or> ''TCP'' = ''UDP''" by simp
  have rest: "([]::string) = [] \<or> \<not> is_word (hd [])" by simp
  have m: "match_line (''TCP 1.2.3.4:5 '' @ replicate 4299 CHR ''0'' @ ''10.0.0.1:443 ESTABLISHED'')
             = Some (''TCP'', dotted ''1'' ''2'' ''3'' ''4'', ''5'', dotted ?z ''0'' ''0'' ''1'',
                     ''443'', ''ESTABLISHED'')"
    unfolding long_zero_line
    by (rule match_line_shape [OF one_space(3) p one_space(1,2) small_digits(2,3,4,5,6)
               one_space(1,2) dz small_digits(1,1,2,8) one_space(1,2) established_word rest])
  have sp: "split_on CHR ''.'' (dotted ?z ''0'' ''0'' ''1'') = [?z, ''0'', ''0'', ''1'']"
    by (rule split_dotted [OF dz small_digits(1,1,2)])
  have long: "max_str_digits < length ?z"
    by (simp add: max_str_digits_def)
  have n: "\<not> is_private_ip (dotted ?z ''0'' ''0'' ''1'')"
    using is_private_ip_pieces [OF sp dz small_digits(1), of 0 0] long by simp
  have "length (dotted ?z ''0'' ''0'' ''1'') = 4307"
    by (simp add: dotted_def)
  then have l: "dotted ?z ''0'' ''0'' ''1'' \<notin> set excluded_literals"
    by (auto simp: excluded_literals_def)
  have ports: "length ''5'' \<le> max_str_digits \<and> length ''443'' \<le> max_str_digits"
    by (simp add: max_str_digits_def)
  have v: "dec_val ''5'' = 5" "dec_val ''443'' = 443" "dec_val ?z = 10" "dec_val ''0'' = 0"
          "dec_val ''1'' = 1"
    by (simp_all add: dec_val_zeros_append) (simp_all add: dec_val_def digit_val_def)
  from l n ports have
    "parse_loop [] [''TCP 1.2.3.4:5 '' @ replicate 4299 CHR ''0'' @ ''10.0.0.1:443 ESTABLISHED''] =
       Inr [\<lparr>protocol = ''TCP'', local_ip = dotted ''1'' ''2'' ''3'' ''4'',
              local_port = int (dec_val ''5''), remote_ip = dotted ?z ''0'' ''0'' ''1'',
              remote_port = int (dec_val ''443''), state = ''ESTABLISHED''\<rparr>]"
    by (simp only: parse_loop_match [OF m] simp_thms if_True parse_loop.simps(1) append_Nil)
  then have a: "parse_netstat_output
     [''TCP 1.2.3.4:5 '' @ replicate 4299 CHR ''0'' @ ''10.0.0.1:443 ESTABLISHED''] =
     Inr [\<lparr>protocol = ''TCP'', local_ip = ''1.2.3.4'', local_port = 5,
            remote_ip = ?rip, remote_port = 443, state = ''ESTABLISHED''\<rparr>]"
    by (simp add: parse_netstat_output_def v dotted_def)
  have q: "dotted_quad ?rip = Some (10, 0, 0, 1)"
    unfolding e using dotted_quad_dotted [OF dz small_digits(1,1,2)] by (simp add: v)
  have o: "octets (10, 0, 0, 1)" by (simp add: octets_def)
  have pq: "private_quad (10, 0, 0, 1)" by (simp add: private_quad_def)
  with o have b: "in_private_block (ipv4_addr (10, 0, 0, 1))"
    by (simp add: private_block_quad)
  have d1: "digits (replicate 4301 CHR ''1'')"
    by (rule digits_ones) simp
  have m2: "match_line (''TCP 1.2.3.4:5 999.1.2.3:'' @ replicate 4301 CHR ''1'' @ '' ESTABLISHED'')
             = Some (''TCP'', dotted ''1'' ''2'' ''3'' ''4'', ''5'', dotted ''999'' ''1'' ''2'' ''3'',
                     replicate 4301 CHR ''1'', ''ESTABLISHED'')"
    unfolding long_port_line
    by (rule match_line_shape [OF one_space(3) p one_space(1,2) small_digits(2,3,4,5,6)
               one_space(1,2) small_digits(9,2,3,4) d1 one_space(1,2) established_word rest])
  have n2: "\<not> is_private_ip (dotted ''999'' ''1'' ''2'' ''3'')"
    by (simp add: dotted_def is_private_ip_def char_classes conversions)
  have l2: "dotted ''999'' ''1'' ''2'' ''3'' \<notin> set excluded_literals"
    by (simp add: dotted_def excluded_literals_def)
  have long2: "\<not> (length ''5'' \<le> max_str_digits \<and>
                  length (replicate 4301 CHR ''1'') \<le> max_str_digits)"
    by (simp add: max_str_digits_def)
  from l2 n2 long2 have
    "parse_loop [] [''TCP 1.2.3.4:5 999.1.2.3:'' @ replicate 4301 CHR ''1'' @ '' ESTABLISHED''] =
       Inl ValueError"
    by (simp only: parse_loop_match [OF m2] simp_thms if_True if_False)
  then have c: "parse_netstat_output
     [''TCP 1.2.3.4:5 999.1.2.3:'' @ replicate 4301 CHR ''1'' @ '' ESTABLISHED''] = Inl ValueError"
    by (simp add: parse_netstat_output_def)
  from a q pq o b c show ?thesis by blast
qed

text \<open>
  C4. The example scenario. Of the three lines the first two match the pattern and the
  third does not; the filter keeps only the second, whose remote address is 93.184.216.34;
  after the analysis the port-services entry of port 443 is a list of length one whose
  service name is HTTPS, whatever the provider answers.
\<close>

theorem example_scenario:
  "map match_line
     [''TCP    0.0.0.0:80    0.0.0.0:0    LISTENING'',
      ''TCP    10.0.0.5:51000    93.184.216.34:443    ESTABLISHED'',
      ''garbage line''] =
     [Some (''TCP'', ''0.0.0.0'', ''80'', ''0.0.0.0'', ''0'', ''LISTENING''),
      Some (''TCP'', ''10.0.0.5'', ''51000'', ''93.184.216.34'', ''443'', ''ESTABLISHED''),
      None] \<and>
   parse_netstat_output
     [''TCP    0.0.0.0:80    0.0.0.0:0    LISTENING'',
      ''TCP    10.0.0.5:51000    93.184.216.34:443    ESTABLISHED'',
      ''garbage line''] =
     Inr [\<lparr>protocol = ''TCP'', local_ip = ''10.0.0.5'', local_port = 51000,
            remote_ip = ''93.184.216.34'', remote_port = 443, state = ''ESTABLISHED''\<rparr>] \<and>
   (\<exists>w. analyze_connections
          [''TCP    0.0.0.0:80    0.0.0.0:0    LISTENING'',
           ''TCP    10.0.0.5:51000    93.184.216.34:443    ESTABLISHED'',
           ''garbage line''] net set_order init = Inr w \<and>
        map_of (port_services w) 443 =
          Some [\<lparr>e_ip = ''93.184.216.34'', e_service = ''HTTPS'', e_protocol = ''TCP'',
                  e_state = ''ESTABLISHED''\<rparr>])"
proof (intro conjI)
  show "map match_line
     [''TCP    0.0.0.0:80    0.0.0.0:0    LISTENING'',
      ''TCP    10.0.0.5:51000    93.184.216.34:443    ESTABLISHED'',
      ''garbage line''] =
     [Some (''TCP'', ''0.0.0.0'', ''80'', ''0.0.0.0'', ''0'', ''LISTENING''),
      Some (''TCP'', ''10.0.0.5'', ''51000'', ''93.184.216.34'', ''443'', ''ESTABLISHED''),
      None]"
    by (simp add: match_listening match_established match_garbage)
next
  show "parse_netstat_output
     [''TCP    0.0.0.0:80    0.0.0.0:0    LISTENING'',
      ''TCP    10.0.0.5:51000    93.184.216.34:443    ESTABLISHED'',
      ''garbage line''] =
     Inr [\<lparr>protocol = ''TCP'', local_ip = ''10.0.0.5'', local_port = 51000,
            remote_ip = ''93.184.216.34'', remote_port = 443, state = ''ESTABLISHED''\<rparr>]"
    by (rule parse_example)
next
  show "\<exists>w. analyze_connections
          [''TCP    0.0.0.0:80    0.0.0.0:0    LISTENING'',
           ''TCP    10.0.0.5:51000    93.184.216.34:443    ESTABLISHED'',
           ''garbage line''] net set_order init = Inr w \<and>
        map_of (port_services w) 443 =
          Some [\<lparr>e_ip = ''93.184.216.34'', e_service = ''HTTPS'', e_protocol = ''TCP'',
                  e_state = ''ESTABLISHED''\<rparr>]"
    by (simp add: analyze_connections_def parse_example Let_def resolve_all_keeps init_def
          service_443)
qed

subsection \<open>Numbers above 255 in an address\<close>


lemma first_octet_big_public: "255 < a \<Longrightarrow> \<not> private_quad (a, b, c, d)"
  by (simp add: private_quad_def)




subsection \<open>The summary block\<close>

text \<open>
  C8 at a failing lookup: one connection whose address the provider does not resolve. The
  analysis ends with an empty location cache, and the summary block reports one connection,
  zero unique addresses and one port, although the connections have one distinct remote
  address.
\<close>

theorem summary_counts_cached_ips:
  "analyze_connections [''TCP    10.0.0.5:51000    93.184.216.34:443    ESTABLISHED'']
     (\<lambda>ip. Timeout) (\<lambda>ips. ips) init =
   Inr \<lparr>connections =
          [\<lparr>protocol = ''TCP'', local_ip = ''10.0.0.5'', local_port = 51000,
            remote_ip = ''93.184.216.34'', remote_port = 443, state = ''ESTABLISHED''\<rparr>],
        ip_locations = [],
        port_services =
          [(443, [\<lparr>e_ip = ''93.184.216.34'', e_service = ''HTTPS'', e_protocol = ''TCP'',
                    e_state = ''ESTABLISHED''\<rparr>])],
        effects = [Sleep, HttpGet ''93.184.216.34'']\<rparr> \<and>
   summary_block
     \<lparr>connections =
          [\<lparr>protocol = ''TCP'', local_ip = ''10.0.0.5'', local_port = 51000,
            remote_ip = ''93.184.216.34'', remote_port = 443, state = ''ESTABLISHED''\<rparr>],
        ip_locations = [],
        port_services =
          [(443, [\<lparr>e_ip = ''93.184.216.34'', e_service = ''HTTPS'', e_protocol = ''TCP'',
                    e_state = ''ESTABLISHED''\<rparr>])],
        effects = [Sleep, HttpGet ''93.184.216.34'']\<rparr> = (1, 0, 1) \<and>
   length (remdups (map remote_ip
          [\<lparr>protocol = ''TCP'', local_ip = ''10.0.0.5'', local_port = 51000,
            remote_ip = ''93.184.216.34'', remote_port = 443, state = ''ESTABLISHED''\<rparr>])) = 1"
proof -
  have "parse_netstat_output
          [''TCP    10.0.0.5:51000    93.184.216.34:443    ESTABLISHED''] =
        Inr [\<lparr>protocol = ''TCP'', local_ip = ''10.0.0.5'', local_port = 51000,
            remote_ip = ''93.184.216.34'', remote_port = 443, state = ''ESTABLISHED''\<rparr>]"
    by (simp add: parse_netstat_output_def match_established
          public_example port_51000 port_443 excluded_literals_def)
  then show ?thesis
    by (simp add: analyze_connections_def Let_def init_def get_ip_location_def service_443
          summary_block_def)
qed

subsection \<open>The map file\<close>




end
